theory Spec2Isabelle
  imports Complex_Main "HOL-Library.Word" "HOL-Library.Sublist"
begin

section \<open>Values shared by the adapter and the manager\<close>

text \<open>
  Go's \<open>int\<close> and \<open>int64\<close> are 64-bit two's-complement integers on the targets the grader
  is built for: \<open>+\<close> wraps, comparisons are signed (\<open><s\<close>), and \<open>sint\<close> reads the value.
  A Go \<open>string\<close> and a \<open>[]byte\<close> are byte sequences, here \<open>string\<close> (a \<open>char list\<close>);
  the non-ASCII literals of the source are written as their UTF-8 bytes.
  An \<open>error\<close> is represented by its text (\<open>err.Error()\<close>).
\<close>

type_synonym go_int = "64 word"
type_synonym int64 = "64 word"
type_synonym error = string

text \<open>
  \<open>float64\<close> is kept abstract: a value of type \<open>'f\<close> together with the three operations
  the source applies (conversion of an integer or of a numeric constant, \<open>/\<close>, \<open>*\<close>).
  Every statement about a score therefore holds for IEEE arithmetic as the program runs
  it; \<open>exact_float64\<close> is the reading in which the operations are those of the real
  numbers.
\<close>

record 'f float64_ops =
  f64_of_int :: "int \<Rightarrow> 'f"
  f64_div :: "'f \<Rightarrow> 'f \<Rightarrow> 'f"
  f64_mul :: "'f \<Rightarrow> 'f \<Rightarrow> 'f"

definition exact_float64 :: "real float64_ops" where
  "exact_float64 = \<lparr>f64_of_int = real_of_int, f64_div = (/), f64_mul = (*)\<rparr>"

text \<open>
  The status constants of package \<open>aoiclient\<close>. The package is not part of the sources at
  hand, so the constants are a parameter of every function that mentions one.
  \<open>documented_statuses\<close> is the table of status strings in the repository's README.
  \<open>sample_aoiclient\<close> is one choice of the constants, for the instances: the spellings of
  that table, and a spelling of its own for \<open>StatusInternalError\<close>, which the table does not
  list.
\<close>

record aoiclient_consts =
  StatusAccepted :: string
  StatusWrongAnswer :: string
  StatusTimeLimitExceeded :: string
  StatusMemoryLimitExceeded :: string
  StatusInternalError :: string
  StatusError :: string

definition documented_statuses :: "string list" where
  "documented_statuses =
     [''Accepted'', ''Wrong Answer'', ''Time Limit Exceeded'', ''Memory Limit Exceeded'',
      ''Runtime Error'', ''Compile Error'', ''Error'']"

definition sample_aoiclient :: aoiclient_consts where
  "sample_aoiclient =
     \<lparr>StatusAccepted = ''Accepted'', StatusWrongAnswer = ''Wrong Answer'',
      StatusTimeLimitExceeded = ''Time Limit Exceeded'',
      StatusMemoryLimitExceeded = ''Memory Limit Exceeded'',
      StatusInternalError = ''Internal Error'', StatusError = ''Error''\<rparr>"

text \<open>\<open>fmt\<close>'s \<open>%d\<close> verb: the decimal digits of a signed integer.\<close>

fun digits10 :: "nat \<Rightarrow> string" where
  "digits10 n =
     (if n < 10 then [char_of (48 + n)]
      else digits10 (n div 10) @ [char_of (48 + n mod 10)])"

declare digits10.simps [simp del]

definition fmt_d :: "int \<Rightarrow> string" where
  "fmt_d i = (if i < 0 then CHR ''-'' # digits10 (nat (- i)) else digits10 (nat i))"

text \<open>The queue-side records of package \<open>aoiclient\<close>, with the fields the source sets.\<close>

record 'f SolutionInfo =
  Score :: 'f
  Status :: string
  Message :: string

record 'f SolutionDetailsTest =
  test_Name :: string
  test_Score :: 'f
  test_ScoreScale :: 'f
  test_Status :: string
  test_Summary :: string

record 'f SolutionDetailsJob =
  job_Name :: string
  job_Score :: 'f
  job_ScoreScale :: 'f
  job_Status :: string
  job_Summary :: string
  job_Tests :: "'f SolutionDetailsTest list"

record 'f SolutionDetails =
  Version :: go_int
  Summary :: string
  Jobs :: "'f SolutionDetailsJob list"

text \<open>A decoded JSON value of Go type \<open>any\<close>: the source only asks whether it is a string.\<close>

datatype any = AnyString string | AnyOther string

section \<open>The pytest report adapter (package adapters)\<close>

subsection \<open>Format strings\<close>

text \<open>
  The \<open>fmt.Sprintf\<close> calls of \<open>CalculateScore\<close>, one function per format string; both
  versions of the adapter use the same formats. The all-passed format is
  \<open>"<all passed> %d/%d <test points>"\<close>, the partial one
  \<open>"<passed> %d/%d <test points>, <failed> %d <items>"\<close>, the zero-passed one
  \<open>"<no test point passed> (0/%d)"\<close>; the two suffixes are
  \<open>", <skipped> %d <items>"\<close> and \<open>", <expected failures> %d <items>"\<close>.
\<close>

definition u8_passed :: string where
  "u8_passed = [CHR 0xE9, CHR 0x80, CHR 0x9A, CHR 0xE8, CHR 0xBF, CHR 0x87]"

definition u8_test_points :: string where
  "u8_test_points =
     [CHR 0xE6, CHR 0xB5, CHR 0x8B, CHR 0xE8, CHR 0xAF, CHR 0x95, CHR 0xE7, CHR 0x82, CHR 0xB9]"

definition u8_failed :: string where
  "u8_failed = [CHR 0xE5, CHR 0xA4, CHR 0xB1, CHR 0xE8, CHR 0xB4, CHR 0xA5]"

definition u8_items :: string where
  "u8_items = [CHR 0xE4, CHR 0xB8, CHR 0xAA]"

definition u8_comma :: string where
  "u8_comma = [CHR 0xEF, CHR 0xBC, CHR 0x8C]"

definition fmt_all_passed :: "int \<Rightarrow> int \<Rightarrow> string" where
  "fmt_all_passed p t =
     [CHR 0xE5, CHR 0x85, CHR 0xA8, CHR 0xE9, CHR 0x83, CHR 0xA8] @ u8_passed @ '' '' @
     fmt_d p @ ''/'' @ fmt_d t @ '' '' @ u8_test_points"

definition fmt_partial :: "int \<Rightarrow> int \<Rightarrow> int \<Rightarrow> string" where
  "fmt_partial p t f =
     u8_passed @ '' '' @ fmt_d p @ ''/'' @ fmt_d t @ '' '' @ u8_test_points @ u8_comma @
     u8_failed @ '' '' @ fmt_d f @ '' '' @ u8_items"

definition zero_passed_prefix :: string where
  "zero_passed_prefix =
     [CHR 0xE6, CHR 0x9C, CHR 0xAA] @ u8_passed @
     [CHR 0xE4, CHR 0xBB, CHR 0xBB, CHR 0xE4, CHR 0xBD, CHR 0x95] @ u8_test_points @ '' (0/''"

definition fmt_none_passed :: "int \<Rightarrow> string" where
  "fmt_none_passed t = zero_passed_prefix @ fmt_d t @ '')''"

definition fmt_skipped :: "int \<Rightarrow> string" where
  "fmt_skipped k =
     u8_comma @ [CHR 0xE8, CHR 0xB7, CHR 0xB3, CHR 0xE8, CHR 0xBF, CHR 0x87] @ '' '' @
     fmt_d k @ '' '' @ u8_items"

definition u8_expected_failure :: string where
  "u8_expected_failure = [CHR 0xE9, CHR 0xA2, CHR 0x84, CHR 0xE6, CHR 0x9C, CHR 0x9F] @ u8_failed"

definition fmt_xfailed :: "int \<Rightarrow> string" where
  "fmt_xfailed k = u8_comma @ u8_expected_failure @ '' '' @ fmt_d k @ '' '' @ u8_items"

subsection \<open>The simplified (earlier) adapter\<close>

text \<open>
  The first file of \<open>internal/adapters/lfs1.go\<close>: the summary has no \<open>XFailed\<close> field and
  the report no test list. Its names carry the suffix \<open>_v1\<close>.
\<close>

record PytestReportSummary_v1 =
  Passed_v1 :: go_int
  Failed_v1 :: go_int
  Skipped_v1 :: go_int
  Total_v1 :: go_int
  Collected_v1 :: go_int

record 'f PytestReport_v1 =
  Created_v1 :: 'f
  Duration_v1 :: 'f
  ExitCode_v1 :: go_int
  Root_v1 :: string
  Environment_v1 :: "string \<rightharpoonup> any"
  Summary_v1 :: PytestReportSummary_v1

record 'f LFS1Result =
  res_Score :: 'f
  res_Status :: string
  res_Message :: string
  res_Details :: "'f SolutionDetails option"

text \<open>
  \<open>CalculateScore\<close> of the simplified file. \<open>fmt_2f\<close> is the \<open>%.2f\<close> verb, used only for the
  summary of the single aggregate job.
\<close>

definition CalculateScore_v1 ::
  "'f float64_ops \<Rightarrow> aoiclient_consts \<Rightarrow> ('f \<Rightarrow> string) \<Rightarrow> 'f PytestReport_v1 \<Rightarrow> 'f LFS1Result"
where
  "CalculateScore_v1 F K fmt_2f report =
     (let summary = Summary_v1 report;
          total = Total_v1 summary;
          passed = Passed_v1 summary;
          score =
            (if 0 <s total
             then f64_mul F (f64_div F (f64_of_int F (sint passed)) (f64_of_int F (sint total)))
                    (f64_of_int F 100)
             else f64_of_int F 0);
          (status, message) =
            (if Failed_v1 summary = 0 \<and> passed = total
             then (StatusAccepted K, fmt_all_passed (sint passed) (sint total))
             else if 0 <s passed
             then (StatusWrongAnswer K,
                   fmt_partial (sint passed) (sint total) (sint (Failed_v1 summary)))
             else (StatusWrongAnswer K, fmt_none_passed (sint total)));
          message =
            (if 0 <s Skipped_v1 summary
             then message @ fmt_skipped (sint (Skipped_v1 summary)) else message);
          details =
            \<lparr>Version = 1, Summary = message,
             Jobs =
               [\<lparr>job_Name = ''pytest'', job_Score = score, job_ScoreScale = f64_of_int F 100,
                 job_Status = status,
                 job_Summary =
                   [CHR 0xE6, CHR 0x89, CHR 0xA7, CHR 0xE8, CHR 0xA1, CHR 0x8C, CHR 0xE8, CHR 0x80,
                    CHR 0x97, CHR 0xE6, CHR 0x97, CHR 0xB6] @ '' '' @
                   fmt_2f (Duration_v1 report) @ '' '' @ [CHR 0xE7, CHR 0xA7, CHR 0x92],
                 job_Tests =
                   [\<lparr>test_Name = u8_passed, test_Score = f64_of_int F (sint passed),
                     test_ScoreScale = f64_of_int F (sint total),
                     test_Status = StatusAccepted K,
                     test_Summary =
                       fmt_d (sint passed) @ '' '' @ u8_items @
                       [CHR 0xE6, CHR 0xB5, CHR 0x8B, CHR 0xE8, CHR 0xAF, CHR 0x95] @ u8_passed\<rparr>,
                    \<lparr>test_Name = u8_failed, test_Score = f64_of_int F 0,
                     test_ScoreScale = f64_of_int F (sint (Failed_v1 summary)),
                     test_Status = StatusWrongAnswer K,
                     test_Summary =
                       fmt_d (sint (Failed_v1 summary)) @ '' '' @ u8_items @
                       [CHR 0xE6, CHR 0xB5, CHR 0x8B, CHR 0xE8, CHR 0xAF, CHR 0x95] @ u8_failed\<rparr>]\<rparr>]\<rparr>
      in \<lparr>res_Score = score, res_Status = status, res_Message = message,
          res_Details = Some details\<rparr>)"

subsection \<open>The extended (later) adapter\<close>

record PytestReportSummary =
  Passed :: go_int
  Failed :: go_int
  Skipped :: go_int
  XFailed :: go_int
  Total :: go_int
  Collected :: go_int

record PytestCrashInfo =
  crash_Path :: string
  crash_Lineno :: go_int
  crash_Message :: string

record 'f PytestTestPhase =
  phase_Duration :: 'f
  phase_Outcome :: string
  phase_Crash :: "PytestCrashInfo option"
  phase_Longrepr :: string

record 'f PytestTestCase =
  tc_NodeID :: string
  tc_Lineno :: go_int
  tc_Outcome :: string
  tc_Keywords :: "string list"
  tc_Setup :: "'f PytestTestPhase option"
  tc_Call :: "'f PytestTestPhase option"
  tc_Teardown :: "'f PytestTestPhase option"

record 'f PytestReport =
  Created :: 'f
  Duration :: 'f
  ExitCode :: go_int
  Root :: string
  Environment :: "string \<rightharpoonup> any"
  report_Summary :: PytestReportSummary
  report_Tests :: "'f PytestTestCase list"

text \<open>
  \<open>strings.Split(nodeid, "::")\<close>: the pieces between the occurrences of the separator,
  found from left to right; \<open>cur\<close> is the current piece, reversed.
\<close>

fun split_colons :: "string \<Rightarrow> string \<Rightarrow> string list" where
  "split_colons cur [] = [rev cur]"
| "split_colons cur [c] = [rev (c # cur)]"
| "split_colons cur (c # c' # cs) =
     (if c = CHR '':'' \<and> c' = CHR '':'' then rev cur # split_colons [] cs
      else split_colons (c # cur) (c' # cs))"

definition extractTestName :: "string \<Rightarrow> string" where
  "extractTestName nodeid =
     (let parts = split_colons [] nodeid
      in if 0 < length parts then parts ! (length parts - 1) else nodeid)"

definition outcomeToStatus :: "aoiclient_consts \<Rightarrow> string \<Rightarrow> string" where
  "outcomeToStatus K outcome =
     (if outcome = ''passed'' then StatusAccepted K
      else if outcome = ''failed'' then StatusWrongAnswer K
      else if outcome = ''skipped'' then ''Skipped''
      else if outcome = ''xfailed'' then StatusAccepted K
      else if outcome = ''xpassed'' then StatusAccepted K
      else StatusWrongAnswer K)"

definition generateTestSummary :: "'f PytestTestCase \<Rightarrow> string" where
  "generateTestSummary test =
     (if tc_Outcome test = ''passed'' then u8_passed
      else if tc_Outcome test = ''xfailed'' then u8_expected_failure
      else if tc_Outcome test = ''xpassed''
      then u8_expected_failure @ [CHR 0xE4, CHR 0xBD, CHR 0x86] @ u8_passed
      else if tc_Outcome test = ''skipped''
      then [CHR 0xE8, CHR 0xB7, CHR 0xB3, CHR 0xE8, CHR 0xBF, CHR 0x87]
      else if tc_Outcome test = ''failed''
      then (case tc_Call test of
              None \<Rightarrow> [CHR 0xE6, CHR 0xB5, CHR 0x8B, CHR 0xE8, CHR 0xAF, CHR 0x95] @ u8_failed
            | Some call \<Rightarrow>
                (case phase_Crash call of
                   Some crash \<Rightarrow>
                     if crash_Message crash \<noteq> [] then crash_Message crash
                     else if phase_Longrepr call \<noteq> []
                     then (if 200 < length (phase_Longrepr call)
                           then take 200 (phase_Longrepr call) @ ''...''
                           else phase_Longrepr call)
                     else [CHR 0xE6, CHR 0xB5, CHR 0x8B, CHR 0xE8, CHR 0xAF, CHR 0x95] @ u8_failed
                 | None \<Rightarrow>
                     if phase_Longrepr call \<noteq> []
                     then (if 200 < length (phase_Longrepr call)
                           then take 200 (phase_Longrepr call) @ ''...''
                           else phase_Longrepr call)
                     else [CHR 0xE6, CHR 0xB5, CHR 0x8B, CHR 0xE8, CHR 0xAF, CHR 0x95] @ u8_failed))
      else tc_Outcome test)"

definition test_job :: "'f float64_ops \<Rightarrow> aoiclient_consts \<Rightarrow> 'f PytestTestCase \<Rightarrow> 'f SolutionDetailsJob"
where
  "test_job F K test =
     \<lparr>job_Name = extractTestName (tc_NodeID test),
      job_Score =
        (if tc_Outcome test = ''passed'' \<or> tc_Outcome test = ''xfailed'' \<or>
            tc_Outcome test = ''xpassed''
         then f64_of_int F 100 else f64_of_int F 0),
      job_ScoreScale = f64_of_int F 1,
      job_Status = outcomeToStatus K (tc_Outcome test),
      job_Summary = generateTestSummary test,
      job_Tests = []\<rparr>"

text \<open>
  \<open>CalculateScore\<close> of the extended file: expected failures count as passes; the loop over
  \<open>report.Tests\<close> appends one job per test case (\<open>test_job\<close> is its body).
\<close>

definition CalculateScore ::
  "'f float64_ops \<Rightarrow> aoiclient_consts \<Rightarrow> 'f PytestReport \<Rightarrow> 'f LFS1Result"
where
  "CalculateScore F K report =
     (let summary = report_Summary report;
          total = Total summary;
          passed = Passed summary + XFailed summary;
          score =
            (if 0 <s total
             then f64_mul F (f64_div F (f64_of_int F (sint passed)) (f64_of_int F (sint total)))
                    (f64_of_int F 100)
             else f64_of_int F 0);
          (status, message) =
            (if Failed summary = 0 \<and> passed = total
             then (StatusAccepted K, fmt_all_passed (sint passed) (sint total))
             else if 0 <s passed
             then (StatusWrongAnswer K,
                   fmt_partial (sint passed) (sint total) (sint (Failed summary)))
             else (StatusWrongAnswer K, fmt_none_passed (sint total)));
          message =
            (if 0 <s Skipped summary
             then message @ fmt_skipped (sint (Skipped summary)) else message);
          message =
            (if 0 <s XFailed summary
             then message @ fmt_xfailed (sint (XFailed summary)) else message);
          jobs = map (test_job F K) (report_Tests report);
          details = \<lparr>Version = 1, Summary = message, Jobs = jobs\<rparr>
      in \<lparr>res_Score = score, res_Status = status, res_Message = message,
          res_Details = Some details\<rparr>)"

text \<open>
  Both adapters decode the same JSON document; the simplified one has no field for
  \<open>xfailed\<close> and \<open>tests\<close> and drops them. \<open>simplified_view\<close> is the report the simplified
  adapter holds for the document whose extended decoding is \<open>report\<close>.
\<close>

definition simplified_view :: "'f PytestReport \<Rightarrow> 'f PytestReport_v1" where
  "simplified_view report =
     \<lparr>Created_v1 = Created report, Duration_v1 = Duration report,
      ExitCode_v1 = ExitCode report, Root_v1 = Root report,
      Environment_v1 = Environment report,
      Summary_v1 =
        \<lparr>Passed_v1 = Passed (report_Summary report), Failed_v1 = Failed (report_Summary report),
         Skipped_v1 = Skipped (report_Summary report), Total_v1 = Total (report_Summary report),
         Collected_v1 = Collected (report_Summary report)\<rparr>\<rparr>"

section \<open>The manager (package manager)\<close>

subsection \<open>Data\<close>

record MountConfig =
  mc_Source :: string
  mc_Target :: string
  mc_ReadOnly :: bool

text \<open>
  \<open>RunningConfig\<close>, the decoded judge configuration. A nil \<open>Env\<close> map ranges like an empty
  one; \<open>Variables\<close> is compared with nil, so it is an option.
\<close>

record 'f RunningConfig =
  rc_Image :: string
  rc_PreCmd :: "string list"
  rc_DockerCmd :: "string list"
  rc_PostCmd :: "string list"
  rc_Timeout :: int64
  rc_MemoryLimit :: int64
  rc_CPULimit :: 'f
  rc_Env :: "string \<rightharpoonup> string"
  rc_WorkDir :: string
  rc_Mounts :: "MountConfig list"
  rc_Variables :: "(string \<rightharpoonup> any) option"

text \<open>Package \<open>executor\<close>: the fields the manager writes and reads.\<close>

record Mount =
  m_Source :: string
  m_Target :: string
  m_ReadOnly :: bool

record 'f ExecuteConfig =
  Image :: string
  Command :: "string list"
  Timeout :: int64
  MemoryLimit :: int64
  CPULimit :: 'f
  Env :: "string \<rightharpoonup> string"
  WorkDir :: string
  Mounts :: "Mount list"

record ExecuteResult =
  TimedOut :: bool
  OOM :: bool
  ExitCode :: go_int

text \<open>Package \<open>aoiclient\<close>: the polled solution.\<close>

record JudgeConfig =
  Adapter :: string
  Config :: string

record ProblemConfig =
  Label :: string
  Judge :: JudgeConfig

record SolutionPoll =
  SolutionId :: string
  TaskId :: string
  UserId :: string
  ContestId :: string
  SolutionDataUrl :: string
  SolutionDataHash :: string
  ProblemDataUrl :: string
  ProblemDataHash :: string
  ProblemConfig :: ProblemConfig

text \<open>
  Package \<open>judgerproto\<close>: a decoded line. The eight action constants are the cases of the
  \<open>switch\<close> in \<open>processMessage\<close> (Go rejects a switch with two equal constant cases, so they
  are distinct); \<open>ActionOther\<close> is any other action tag, for which the switch has no case.
\<close>

datatype Action =
  ActionGreet | ActionNoop | ActionLog | ActionError | ActionPatch | ActionDetail
| ActionComplete | ActionQuit | ActionOther string

record Message =
  msg_Action :: Action
  msg_Body :: string

text \<open>
  The three calls the manager makes on a solution of the queue. Every call can fail; the
  manager logs a failure and goes on, so the calls it issues do not depend on their
  results, and a run is described by the sequence of calls it issues.
\<close>

datatype 'f queue_call =
  Patch "'f SolutionInfo" | SaveDetails "'f SolutionDetails" | Complete

text \<open>
  What a task does, in order: a call to the queue, the dispatch of the container
  (\<open>ExecuteWithLogs\<close> is entered), or one invocation of the line callback.
\<close>

datatype 'f event =
  Queue "'f queue_call" | Dispatch "'f ExecuteConfig" | Callback string

text \<open>
  The manager: its configuration (\<open>SharedVolumePath\<close>) and everything it calls outside
  the sources at hand, as functions. An error result is \<open>Inl\<close> of the error text.
  \<open>ExecuteWithLogs\<close> gives, for an execution configuration, the lines the container
  writes (the callback runs once per line, in order, and always returns nil) and the
  result or infrastructure error it ends with. \<open>os_Stat\<close> returns the error, if any.
\<close>

record 'f Manager =
  SharedVolumePath :: string
  json_Unmarshal_RunningConfig :: "string \<Rightarrow> error + 'f RunningConfig"
  json_Marshal_Variables :: "(string \<rightharpoonup> any) \<Rightarrow> error + string"
  os_MkdirTemp :: "string \<Rightarrow> error + string"
  filepath_Join :: "string \<Rightarrow> string \<Rightarrow> string"
  os_Stat :: "string \<Rightarrow> error option"
  os_ReadFile :: "string \<Rightarrow> error + string"
  json_Unmarshal_PytestReport :: "string \<Rightarrow> error + 'f PytestReport"
  ExecuteWithLogs :: "'f ExecuteConfig \<Rightarrow> string list \<times> (error + ExecuteResult)"
  MessageFromString :: "string \<Rightarrow> error + Message"
  json_Unmarshal_LogBody :: "string \<Rightarrow> error + string"
  json_Unmarshal_ErrorBody :: "string \<Rightarrow> error + string"
  json_Unmarshal_PatchBody :: "string \<Rightarrow> error + 'f SolutionInfo"
  json_Unmarshal_DetailBody :: "string \<Rightarrow> error + 'f SolutionDetails"

subsection \<open>Reading the report\<close>

definition ParsePytestReportFromBytes :: "'f Manager \<Rightarrow> string \<Rightarrow> error + 'f PytestReport" where
  "ParsePytestReportFromBytes m data =
     (case json_Unmarshal_PytestReport m data of
        Inl err \<Rightarrow> Inl (''failed to parse report JSON: '' @ err)
      | Inr report \<Rightarrow> Inr report)"

definition ParsePytestReport :: "'f Manager \<Rightarrow> string \<Rightarrow> error + 'f PytestReport" where
  "ParsePytestReport m filepath =
     (case os_ReadFile m filepath of
        Inl err \<Rightarrow> Inl (''failed to read report file: '' @ err)
      | Inr data \<Rightarrow> ParsePytestReportFromBytes m data)"

subsection \<open>failSoln and processMessage\<close>

definition failSoln :: "'f float64_ops \<Rightarrow> aoiclient_consts \<Rightarrow> string \<Rightarrow> 'f queue_call list" where
  "failSoln F K reason =
     [Patch \<lparr>Score = f64_of_int F 0, Status = StatusError K, Message = reason\<rparr>,
      SaveDetails \<lparr>Version = 0, Summary = reason, Jobs = []\<rparr>,
      Complete]"

text \<open>
  \<open>processMessage\<close>: the queue calls issued for one line. It has no result and no error
  to return; logging is not a queue call.
\<close>

definition processMessage ::
  "'f float64_ops \<Rightarrow> aoiclient_consts \<Rightarrow> 'f Manager \<Rightarrow> string \<Rightarrow> 'f queue_call list"
where
  "processMessage F K m msg =
     (case MessageFromString m msg of
        Inl err \<Rightarrow> []
      | Inr parsed \<Rightarrow>
          (case msg_Action parsed of
             ActionGreet \<Rightarrow> []
           | ActionNoop \<Rightarrow> []
           | ActionLog \<Rightarrow> []
           | ActionError \<Rightarrow>
               (case json_Unmarshal_ErrorBody m (msg_Body parsed) of
                  Inl err \<Rightarrow> []
                | Inr body \<Rightarrow>
                    [Patch \<lparr>Score = f64_of_int F 0, Status = StatusInternalError K,
                            Message = body\<rparr>])
           | ActionPatch \<Rightarrow>
               (case json_Unmarshal_PatchBody m (msg_Body parsed) of
                  Inl err \<Rightarrow> []
                | Inr body \<Rightarrow> [Patch body])
           | ActionDetail \<Rightarrow>
               (case json_Unmarshal_DetailBody m (msg_Body parsed) of
                  Inl err \<Rightarrow> []
                | Inr body \<Rightarrow> [SaveDetails body])
           | ActionComplete \<Rightarrow> [Complete]
           | ActionQuit \<Rightarrow> []
           | ActionOther a \<Rightarrow> []))"

subsection \<open>buildExecuteConfig\<close>

definition buildExecuteConfig ::
  "'f Manager \<Rightarrow> SolutionPoll \<Rightarrow> 'f RunningConfig \<Rightarrow> string \<Rightarrow> error + 'f ExecuteConfig"
where
  "buildExecuteConfig m soln rc outputDir =
     (let command = rc_DockerCmd rc
      in if length command = 0 then Inl ''docker_cmd is required in judge config''
         else
           (let workDir = (if rc_WorkDir rc = [] then ''/home/judge'' else rc_WorkDir rc);
                timeout = rc_Timeout rc;
                memoryLimit = rc_MemoryLimit rc;
                timeout = (if timeout = 0 then 600 else timeout);
                memoryLimit = (if memoryLimit = 0 then 2048 else memoryLimit);
                env = Map.empty ++ rc_Env rc;
                env = env(''SOLUTION_ID'' \<mapsto> SolutionId soln);
                env = env(''TASK_ID'' \<mapsto> TaskId soln);
                env = env(''USER_ID'' \<mapsto> UserId soln);
                env = env(''CONTEST_ID'' \<mapsto> ContestId soln);
                env = env(''SOLUTION_DATA_URL'' \<mapsto> SolutionDataUrl soln);
                env = env(''SOLUTION_DATA_HASH'' \<mapsto> SolutionDataHash soln);
                env = env(''PROBLEM_DATA_URL'' \<mapsto> ProblemDataUrl soln);
                env = env(''PROBLEM_DATA_HASH'' \<mapsto> ProblemDataHash soln);
                env = env(''PROBLEM_LABEL'' \<mapsto> Label (ProblemConfig soln));
                env = env(''JUDGE_ADAPTER'' \<mapsto> Adapter (Judge (ProblemConfig soln)));
                env =
                  (case rc_Variables rc of
                     None \<Rightarrow> env
                   | Some vars \<Rightarrow>
                       (case json_Marshal_Variables m vars of
                          Inl err \<Rightarrow> env
                        | Inr varsJSON \<Rightarrow> env(''JUDGE_VARIABLES'' \<mapsto> varsJSON)));
                mounts = [\<lparr>m_Source = outputDir, m_Target = ''/output'', m_ReadOnly = False\<rparr>];
                env = env(''OUTPUT_DIR'' \<mapsto> ''/output'');
                mounts =
                  mounts @
                  map (\<lambda>mount. \<lparr>m_Source = mc_Source mount, m_Target = mc_Target mount,
                                 m_ReadOnly = mc_ReadOnly mount\<rparr>)
                    (rc_Mounts rc);
                mounts =
                  (if SharedVolumePath m \<noteq> []
                   then mounts @
                        [\<lparr>m_Source = SharedVolumePath m, m_Target = ''/data'', m_ReadOnly = True\<rparr>,
                         \<lparr>m_Source = SharedVolumePath m @ ''/uv-cache'',
                          m_Target = ''/root/.cache/uv'', m_ReadOnly = False\<rparr>]
                   else mounts)
            in Inr \<lparr>Image = rc_Image rc, Command = command, Timeout = timeout,
                    MemoryLimit = memoryLimit, CPULimit = rc_CPULimit rc, Env = env,
                    WorkDir = workDir, Mounts = mounts\<rparr>))"

text \<open>
  The environment of the container for a task, as a map: the \<open>Env\<close> of the built
  configuration, and nothing when no configuration is built.
\<close>

definition container_env ::
  "'f Manager \<Rightarrow> SolutionPoll \<Rightarrow> 'f RunningConfig \<Rightarrow> string \<Rightarrow> string \<rightharpoonup> string"
where
  "container_env m soln rc outputDir k =
     (case buildExecuteConfig m soln rc outputDir of Inl err \<Rightarrow> None | Inr config \<Rightarrow> Env config k)"

subsection \<open>run\<close>

text \<open>
  The block of \<open>run\<close> for the adapter \<open>lfs1\<close>: the calls it issues and the value it leaves
  in \<open>reportProcessed\<close>.
\<close>

definition reportFileName :: "'f RunningConfig \<Rightarrow> string" where
  "reportFileName rc =
     (case rc_Variables rc of
        None \<Rightarrow> ''report.json''
      | Some vars \<Rightarrow>
          (case vars ''report_name'' of
             Some (AnyString reportName) \<Rightarrow>
               if reportName \<noteq> [] then reportName else ''report.json''
           | _ \<Rightarrow> ''report.json''))"

definition lfs1_report ::
  "'f float64_ops \<Rightarrow> aoiclient_consts \<Rightarrow> 'f Manager \<Rightarrow> 'f RunningConfig \<Rightarrow> string \<Rightarrow>
   'f queue_call list \<times> bool"
where
  "lfs1_report F K m rc outputDir =
     (let reportPath = filepath_Join m outputDir (reportFileName rc)
      in case os_Stat m reportPath of
           Some err \<Rightarrow> ([], False)
         | None \<Rightarrow>
             (case ParsePytestReport m reportPath of
                Inl err \<Rightarrow>
                  ([Patch \<lparr>Score = f64_of_int F 0, Status = StatusInternalError K,
                           Message =
                             [CHR 0xE8, CHR 0xA7, CHR 0xA3, CHR 0xE6, CHR 0x9E, CHR 0x90,
                              CHR 0xE8, CHR 0xAF, CHR 0x84, CHR 0xE6, CHR 0xB5, CHR 0x8B,
                              CHR 0xE6, CHR 0x8A, CHR 0xA5, CHR 0xE5, CHR 0x91, CHR 0x8A] @
                             u8_failed @ '': '' @ err\<rparr>],
                   False)
              | Inr report \<Rightarrow>
                  (let lfsResult = CalculateScore F K report
                   in (Patch \<lparr>Score = res_Score lfsResult, Status = res_Status lfsResult,
                              Message = res_Message lfsResult\<rparr> #
                       (case res_Details lfsResult of
                          Some details \<Rightarrow> [SaveDetails details]
                        | None \<Rightarrow> []),
                       True))))"

text \<open>The messages of the timeout, memory and abnormal-exit reports.\<close>

definition u8_judging :: string where
  "u8_judging = [CHR 0xE8, CHR 0xAF, CHR 0x84, CHR 0xE6, CHR 0xB5, CHR 0x8B]"

definition u8_limit :: string where
  "u8_limit = [CHR 0xE9, CHR 0x99, CHR 0x90, CHR 0xE5, CHR 0x88, CHR 0xB6]"

definition u8_timed_out :: string where
  "u8_timed_out = u8_judging @ [CHR 0xE8, CHR 0xB6, CHR 0x85, CHR 0xE6, CHR 0x97, CHR 0xB6]"

definition u8_memory :: string where
  "u8_memory = [CHR 0xE5, CHR 0x86, CHR 0x85, CHR 0xE5, CHR 0xAD, CHR 0x98]"

definition u8_memory_exceeded :: string where
  "u8_memory_exceeded = u8_memory @ [CHR 0xE8, CHR 0xB6, CHR 0x85, CHR 0xE9, CHR 0x99, CHR 0x90]"

definition timeout_message :: "int64 \<Rightarrow> string" where
  "timeout_message t =
     u8_timed_out @ [CHR 0xEF, CHR 0xBC, CHR 0x88] @ u8_limit @ '' '' @ fmt_d (sint t) @ '' '' @
     [CHR 0xE7, CHR 0xA7, CHR 0x92, CHR 0xEF, CHR 0xBC, CHR 0x89]"

definition timeout_summary :: "int64 \<Rightarrow> string" where
  "timeout_summary t =
     u8_timed_out @ u8_comma @ [CHR 0xE6, CHR 0x97, CHR 0xB6, CHR 0xE9, CHR 0x97, CHR 0xB4] @
     u8_limit @ '' '' @ fmt_d (sint t) @ '' '' @ [CHR 0xE7, CHR 0xA7, CHR 0x92]"

definition oom_message :: "int64 \<Rightarrow> string" where
  "oom_message l =
     u8_memory_exceeded @ [CHR 0xEF, CHR 0xBC, CHR 0x88] @ u8_limit @ '' '' @ fmt_d (sint l) @
     '' MB'' @ [CHR 0xEF, CHR 0xBC, CHR 0x89]"

definition oom_summary :: "int64 \<Rightarrow> string" where
  "oom_summary l =
     u8_memory_exceeded @ u8_comma @ u8_memory @ u8_limit @ '' '' @ fmt_d (sint l) @ '' MB''"

definition abnormal_exit_message :: "go_int \<Rightarrow> string" where
  "abnormal_exit_message c =
     u8_judging @
     [CHR 0xE5, CHR 0xBC, CHR 0x82, CHR 0xE5, CHR 0xB8, CHR 0xB8, CHR 0xE9, CHR 0x80, CHR 0x80,
      CHR 0xE5, CHR 0x87, CHR 0xBA, CHR 0xEF, CHR 0xBC, CHR 0x88, CHR 0xE9, CHR 0x80, CHR 0x80,
      CHR 0xE5, CHR 0x87, CHR 0xBA, CHR 0xE7, CHR 0xA0, CHR 0x81] @ '' '' @ fmt_d (sint c) @
     [CHR 0xEF, CHR 0xBC, CHR 0x89, CHR 0xEF, CHR 0xBC, CHR 0x8C, CHR 0xE6, CHR 0x9C, CHR 0xAA,
      CHR 0xE6, CHR 0x89, CHR 0xBE, CHR 0xE5, CHR 0x88, CHR 0xB0] @ u8_judging @
     [CHR 0xE6, CHR 0x8A, CHR 0xA5, CHR 0xE5, CHR 0x91, CHR 0x8A]"

text \<open>
  The part of \<open>run\<close> after \<open>ExecuteWithLogs\<close> has returned a result: the timeout and the
  memory branch each report and return; otherwise the adapter block, the
  abnormal-exit check and the closing \<open>Complete\<close>.
\<close>

definition run_result ::
  "'f float64_ops \<Rightarrow> aoiclient_consts \<Rightarrow> 'f Manager \<Rightarrow> SolutionPoll \<Rightarrow> 'f RunningConfig \<Rightarrow>
   string \<Rightarrow> 'f ExecuteConfig \<Rightarrow> ExecuteResult \<Rightarrow> 'f queue_call list"
where
  "run_result F K m soln rc outputDir execConfig result =
     (if TimedOut result
      then [Patch \<lparr>Score = f64_of_int F 0, Status = StatusTimeLimitExceeded K,
                   Message = timeout_message (Timeout execConfig)\<rparr>,
            SaveDetails \<lparr>Version = 0, Summary = timeout_summary (Timeout execConfig), Jobs = []\<rparr>,
            Complete]
      else if OOM result
      then [Patch \<lparr>Score = f64_of_int F 0, Status = StatusMemoryLimitExceeded K,
                   Message = oom_message (MemoryLimit execConfig)\<rparr>,
            SaveDetails \<lparr>Version = 0, Summary = oom_summary (MemoryLimit execConfig), Jobs = []\<rparr>,
            Complete]
      else
        (let (calls, reportProcessed) =
               (if Adapter (Judge (ProblemConfig soln)) = ''lfs1''
                then lfs1_report F K m rc outputDir else ([], False))
         in calls @
            (if \<not> reportProcessed \<and> ExitCode result \<noteq> 0
             then [Patch \<lparr>Score = f64_of_int F 0, Status = StatusInternalError K,
                          Message = abnormal_exit_message (ExitCode result)\<rparr>]
             else []) @
            [Complete]))"

text \<open>
  The Solution Info of the first Patch of \<open>run\<close>: status \<open>Running\<close>, the message
  "judging started", and no score (the zero value).
\<close>

definition running_info :: "'f float64_ops \<Rightarrow> 'f SolutionInfo" where
  "running_info F =
     \<lparr>Score = f64_of_int F 0, Status = ''Running'',
      Message = u8_judging @ [CHR 0xE5, CHR 0xBC, CHR 0x80, CHR 0xE5, CHR 0xA7, CHR 0x8B]\<rparr>"

text \<open>
  \<open>run\<close>: the events of the task and the error returned (\<open>None\<close> for nil). The callback
  handed to \<open>ExecuteWithLogs\<close> logs the line and calls \<open>processMessage\<close>; \<open>stream\<close> is
  what the callback does over the lines of the container.
\<close>

definition stream :: "'f float64_ops \<Rightarrow> aoiclient_consts \<Rightarrow> 'f Manager \<Rightarrow> string list \<Rightarrow> 'f event list"
where
  "stream F K m lines =
     concat (map (\<lambda>line. Callback line # map Queue (processMessage F K m line)) lines)"

definition run ::
  "'f float64_ops \<Rightarrow> aoiclient_consts \<Rightarrow> 'f Manager \<Rightarrow> SolutionPoll \<Rightarrow>
   'f event list \<times> error option"
where
  "run F K m soln =
     (case json_Unmarshal_RunningConfig m (Config (Judge (ProblemConfig soln))) of
        Inl err \<Rightarrow> ([], Some (''failed to parse judge config: '' @ err))
      | Inr rc \<Rightarrow>
          (let started = [Queue (Patch (running_info F))]
           in case os_MkdirTemp m (''judge-output-'' @ SolutionId soln @ ''-'') of
                Inl err \<Rightarrow> (started, Some (''failed to create temp output dir: '' @ err))
              | Inr outputDir \<Rightarrow>
                  (case buildExecuteConfig m soln rc outputDir of
                     Inl err \<Rightarrow> (started, Some (''failed to build execute config: '' @ err))
                   | Inr execConfig \<Rightarrow>
                       (let (lines, res) = ExecuteWithLogs m execConfig;
                            streamed = started @ Dispatch execConfig # stream F K m lines
                        in case res of
                             Inl err \<Rightarrow> (streamed, Some (''docker execution failed: '' @ err))
                           | Inr result \<Rightarrow>
                               (streamed @
                                map Queue
                                  (run_result F K m soln rc outputDir execConfig result),
                                None)))))"

subsection \<open>One iteration of Start\<close>

text \<open>
  The body of the polling loop of \<open>Start\<close> for one poll result: a failed poll and a poll
  without solution or task id are skipped; a claimed task is run, and an error of \<open>run\<close> is
  reported with \<open>failSoln\<close>.
\<close>

definition Start_iteration ::
  "'f float64_ops \<Rightarrow> aoiclient_consts \<Rightarrow> 'f Manager \<Rightarrow> error + SolutionPoll \<Rightarrow> 'f event list"
where
  "Start_iteration F K m polled =
     (case polled of
        Inl err \<Rightarrow> []
      | Inr soln \<Rightarrow>
          if SolutionId soln = [] \<or> TaskId soln = [] then []
          else
            (case run F K m soln of
               (events, None) \<Rightarrow> events
             | (events, Some err) \<Rightarrow>
                 events @ map Queue (failSoln F K (''Failed to run solution: '' @ err))))"

subsection \<open>Reading a sequence of events\<close>

fun is_Complete :: "'f event \<Rightarrow> bool" where
  "is_Complete (Queue Complete) = True"
| "is_Complete _ = False"

fun is_Dispatch :: "'f event \<Rightarrow> bool" where
  "is_Dispatch (Dispatch config) = True"
| "is_Dispatch _ = False"

fun queue_call_of :: "'f event \<Rightarrow> 'f queue_call list" where
  "queue_call_of (Queue c) = [c]"
| "queue_call_of _ = []"

fun callback_line :: "'f event \<Rightarrow> string list" where
  "callback_line (Callback line) = [line]"
| "callback_line _ = []"

fun patch_of :: "'f event \<Rightarrow> 'f SolutionInfo list" where
  "patch_of (Queue (Patch info)) = [info]"
| "patch_of _ = []"

definition complete_calls :: "'f event list \<Rightarrow> nat" where
  "complete_calls events = length (filter is_Complete events)"

definition queue_calls :: "'f event list \<Rightarrow> 'f queue_call list" where
  "queue_calls events = concat (map queue_call_of events)"

definition streamed_lines :: "'f event list \<Rightarrow> string list" where
  "streamed_lines events = concat (map callback_line events)"

text \<open>
  The Solution Info of the task after a sequence of events: the queue keeps one per
  solution and a Patch replaces it (the last write wins), so it is the body of the last
  Patch call (\<open>None\<close>: never patched).
\<close>

definition solution_info :: "'f event list \<Rightarrow> 'f SolutionInfo option" where
  "solution_info events =
     (let patches = concat (map patch_of events)
      in if patches = [] then None else Some (last patches))"

text \<open>A line that the codec decodes to a Complete message.\<close>

definition complete_line :: "'f Manager \<Rightarrow> string \<Rightarrow> bool" where
  "complete_line m line =
     (case MessageFromString m line of
        Inl err \<Rightarrow> False
      | Inr parsed \<Rightarrow> msg_Action parsed = ActionComplete)"

text \<open>
  Every Complete call in a sequence of events is a forwarded one: it comes right after
  the callback of a line that decodes to a Complete message, every such callback is
  followed by its Complete call, and there is no other Complete call.
\<close>

fun forwarded_completes :: "'f Manager \<Rightarrow> 'f event list \<Rightarrow> bool" where
  "forwarded_completes m [] = True"
| "forwarded_completes m (Callback line # Queue Complete # rest) =
     (complete_line m line \<and> forwarded_completes m rest)"
| "forwarded_completes m (Callback line # rest) =
     (\<not> complete_line m line \<and> forwarded_completes m rest)"
| "forwarded_completes m (Queue Complete # rest) = False"
| "forwarded_completes m (e # rest) = forwarded_completes m rest"

text \<open>
  A line that is not protocol traffic: the codec rejects it, or its action tag is not
  one of the eight, or its body does not unmarshal into the body type of its action
  (\<open>LogBody\<close>, \<open>ErrorBody\<close>, \<open>PatchBody\<close>, \<open>DetailBody\<close>; the other actions have no body type).
\<close>

definition not_protocol_traffic :: "'f Manager \<Rightarrow> string \<Rightarrow> bool" where
  "not_protocol_traffic m line =
     (case MessageFromString m line of
        Inl err \<Rightarrow> True
      | Inr parsed \<Rightarrow>
          (case msg_Action parsed of
             ActionOther a \<Rightarrow> True
           | ActionLog \<Rightarrow> isl (json_Unmarshal_LogBody m (msg_Body parsed))
           | ActionError \<Rightarrow> isl (json_Unmarshal_ErrorBody m (msg_Body parsed))
           | ActionPatch \<Rightarrow> isl (json_Unmarshal_PatchBody m (msg_Body parsed))
           | ActionDetail \<Rightarrow> isl (json_Unmarshal_DetailBody m (msg_Body parsed))
           | _ \<Rightarrow> False))"

text \<open>
  The judge configuration of a task is rejected: it does not parse, or it parses and
  its \<open>docker_cmd\<close> list is empty (an absent list decodes to the empty one).
\<close>

definition config_rejected :: "'f Manager \<Rightarrow> SolutionPoll \<Rightarrow> bool" where
  "config_rejected m soln =
     (case json_Unmarshal_RunningConfig m (Config (Judge (ProblemConfig soln))) of
        Inl err \<Rightarrow> True
      | Inr rc \<Rightarrow> rc_DockerCmd rc = [])"

text \<open>
  A report artifact the adapter can parse was found: the task names the adapter \<open>lfs1\<close>,
  the report file exists in the output directory, and it parses.
\<close>

definition parseable_artifact ::
  "'f Manager \<Rightarrow> SolutionPoll \<Rightarrow> 'f RunningConfig \<Rightarrow> string \<Rightarrow> bool"
where
  "parseable_artifact m soln rc outputDir =
     (Adapter (Judge (ProblemConfig soln)) = ''lfs1'' \<and>
      os_Stat m (filepath_Join m outputDir (reportFileName rc)) = None \<and>
      \<not> isl (ParsePytestReport m (filepath_Join m outputDir (reportFileName rc))))"

section \<open>Sample inputs\<close>

text \<open>
  Concrete inputs for the instances below: a report with a given summary, a task, judge
  configurations, and a manager whose surroundings are fixed: the judge configuration
  decodes to \<open>rc\<close>, the container writes \<open>lines\<close> and ends with \<open>res\<close>, no report file exists,
  and the codec reads \<open>c\<close> as a Complete message, \<open>p\<close> as a Patch message with a sound body,
  \<open>e\<close> as an Error message whose body does not unmarshal, \<open>x\<close> as a message with an action
  tag of its own, and rejects every other line.
\<close>

definition report_of_summary :: "PytestReportSummary \<Rightarrow> real PytestReport" where
  "report_of_summary s =
     \<lparr>Created = 0, Duration = 0, ExitCode = 0, Root = ''/home/judge'', Environment = Map.empty,
      report_Summary = s, report_Tests = []\<rparr>"

definition sample_summary :: "go_int \<Rightarrow> go_int \<Rightarrow> go_int \<Rightarrow> PytestReportSummary" where
  "sample_summary p f t =
     \<lparr>Passed = p, Failed = f, Skipped = 0, XFailed = 0, Total = t, Collected = t\<rparr>"

definition sample_soln :: SolutionPoll where
  "sample_soln =
     \<lparr>SolutionId = ''s1'', TaskId = ''t1'', UserId = ''u1'', ContestId = ''c1'',
      SolutionDataUrl = ''https://aoi/s1'', SolutionDataHash = ''h1'',
      ProblemDataUrl = ''https://aoi/p1'', ProblemDataHash = ''h2'',
      ProblemConfig = \<lparr>Label = ''lfs'', Judge = \<lparr>Adapter = ''lfs1'', Config = ''{}''\<rparr>\<rparr>\<rparr>"

definition sample_rc :: "string list \<Rightarrow> (string \<rightharpoonup> string) \<Rightarrow> real RunningConfig" where
  "sample_rc cmd env =
     \<lparr>rc_Image = ''judge:latest'', rc_PreCmd = [], rc_DockerCmd = cmd, rc_PostCmd = [],
      rc_Timeout = 0, rc_MemoryLimit = 512, rc_CPULimit = 1, rc_Env = env, rc_WorkDir = [],
      rc_Mounts = [], rc_Variables = None\<rparr>"

definition sample_MessageFromString :: "string \<Rightarrow> error + Message" where
  "sample_MessageFromString line =
     (if line = ''c'' then Inr \<lparr>msg_Action = ActionComplete, msg_Body = []\<rparr>
      else if line = ''p'' then Inr \<lparr>msg_Action = ActionPatch, msg_Body = ''85.5''\<rparr>
      else if line = ''e'' then Inr \<lparr>msg_Action = ActionError, msg_Body = ''{''\<rparr>
      else if line = ''x'' then Inr \<lparr>msg_Action = ActionOther ''x'', msg_Body = []\<rparr>
      else Inl ''invalid character'')"

definition sample_manager ::
  "error + real RunningConfig \<Rightarrow> string list \<Rightarrow> error + ExecuteResult \<Rightarrow> real Manager"
where
  "sample_manager rc lines res =
     \<lparr>SharedVolumePath = [],
      json_Unmarshal_RunningConfig = (\<lambda>data. rc),
      json_Marshal_Variables = (\<lambda>vars. Inr ''{}''),
      os_MkdirTemp = (\<lambda>pattern. Inr (''/tmp/'' @ pattern @ ''0'')),
      filepath_Join = (\<lambda>dir name. dir @ ''/'' @ name),
      os_Stat = (\<lambda>path. Some ''no such file or directory''),
      os_ReadFile = (\<lambda>path. Inl ''no such file or directory''),
      json_Unmarshal_PytestReport = (\<lambda>data. Inl ''unexpected end of JSON input''),
      ExecuteWithLogs = (\<lambda>config. (lines, res)),
      MessageFromString = sample_MessageFromString,
      json_Unmarshal_LogBody = (\<lambda>body. Inl ''cannot unmarshal''),
      json_Unmarshal_ErrorBody = (\<lambda>body. Inl ''cannot unmarshal''),
      json_Unmarshal_PatchBody =
        (\<lambda>body. if body = ''85.5''
                 then Inr \<lparr>Score = 85.5, Status = ''Accepted'', Message = ''ok''\<rparr>
                 else Inl ''cannot unmarshal''),
      json_Unmarshal_DetailBody = (\<lambda>body. Inl ''cannot unmarshal'')\<rparr>"

definition sample_result :: "bool \<Rightarrow> bool \<Rightarrow> go_int \<Rightarrow> ExecuteResult" where
  "sample_result timedOut oom code = \<lparr>TimedOut = timedOut, OOM = oom, ExitCode = code\<rparr>"

section \<open>Properties of the adapter\<close>

subsection \<open>Messages, status and score of CalculateScore\<close>

lemma zero_prefix_none: "prefix zero_passed_prefix (fmt_none_passed t @ sfx)"
  by (simp add: fmt_none_passed_def)

lemma zero_prefix_all: "\<not> prefix zero_passed_prefix (fmt_all_passed p t @ sfx)"
  by (simp add: fmt_all_passed_def zero_passed_prefix_def)

lemma zero_prefix_partial: "\<not> prefix zero_passed_prefix (fmt_partial p t f @ sfx)"
  by (simp add: fmt_partial_def zero_passed_prefix_def u8_passed_def)

lemma CalculateScore_message:
  "\<exists>sfx. res_Message (CalculateScore F K report) =
     (let s = report_Summary report; p = Passed s + XFailed s; t = Total s
      in if Failed s = 0 \<and> p = t then fmt_all_passed (sint p) (sint t)
         else if 0 <s p then fmt_partial (sint p) (sint t) (sint (Failed s))
         else fmt_none_passed (sint t)) @ sfx"
  by (simp add: CalculateScore_def Let_def)

lemma CalculateScore_status:
  "res_Status (CalculateScore F K report) =
     (let s = report_Summary report
      in if Failed s = 0 \<and> Passed s + XFailed s = Total s then StatusAccepted K
         else StatusWrongAnswer K)"
  by (simp add: CalculateScore_def Let_def)

lemma CalculateScore_score:
  "res_Score (CalculateScore F K report) =
     (let s = report_Summary report; p = Passed s + XFailed s; t = Total s
      in if 0 <s t
         then f64_mul F (f64_div F (f64_of_int F (sint p)) (f64_of_int F (sint t))) (f64_of_int F 100)
         else f64_of_int F 0)"
  by (simp add: CalculateScore_def Let_def)

text \<open>
  Claim C3, as the code has it. For every pytest report, with \<open>p = passed + xfailed\<close> in
  Go's \<open>int\<close> arithmetic and \<open>t = total\<close>: the score is \<open>p / t * 100\<close> in \<open>float64\<close> when
  \<open>t > 0\<close> and \<open>0\<close> when \<open>t \<le> 0\<close> (no division by zero), which in exact arithmetic is
  \<open>100 * p / t\<close>; the status is Accepted if and only if \<open>failed = 0\<close> and \<open>p = t\<close>; it is
  Wrong Answer when \<open>0 < p < t\<close>; and when \<open>p = 0\<close> it is Wrong Answer with the
  zero-passed message, unless \<open>failed = 0\<close> and \<open>t = 0\<close> as well (the empty report, which
  is Accepted). The zero-passed message is distinct: it is the only one that begins with
  \<open>zero_passed_prefix\<close>, and it is produced exactly when the report is not Accepted and
  \<open>p \<le> 0\<close>. The two status constants are assumed to be different strings.
\<close>

theorem CalculateScore_score_status:
  fixes F :: "'f float64_ops" and report :: "'f PytestReport" and xreport :: "real PytestReport"
  assumes "StatusAccepted K \<noteq> StatusWrongAnswer K"
  shows
    "(let s = report_Summary report; p = Passed s + XFailed s; t = Total s;
          r = CalculateScore F K report
      in res_Score r =
           (if 0 <s t
            then f64_mul F (f64_div F (f64_of_int F (sint p)) (f64_of_int F (sint t)))
                   (f64_of_int F 100)
            else f64_of_int F 0) \<and>
         (res_Status r = StatusAccepted K \<longleftrightarrow> Failed s = 0 \<and> p = t) \<and>
         (0 <s p \<and> p <s t \<longrightarrow> res_Status r = StatusWrongAnswer K) \<and>
         (p = 0 \<and> \<not> (Failed s = 0 \<and> t = 0) \<longrightarrow>
            res_Status r = StatusWrongAnswer K \<and> prefix zero_passed_prefix (res_Message r)) \<and>
         (prefix zero_passed_prefix (res_Message r) \<longleftrightarrow>
            \<not> (Failed s = 0 \<and> p = t) \<and> \<not> 0 <s p)) \<and>
     (let s = report_Summary xreport; p = Passed s + XFailed s; t = Total s
      in res_Score (CalculateScore exact_float64 K xreport) =
           (if 0 <s t then 100 * real_of_int (sint p) / real_of_int (sint t) else 0))"
proof -
  obtain sfx where m: "res_Message (CalculateScore F K report) =
     (let s = report_Summary report; p = Passed s + XFailed s; t = Total s
      in if Failed s = 0 \<and> p = t then fmt_all_passed (sint p) (sint t)
         else if 0 <s p then fmt_partial (sint p) (sint t) (sint (Failed s))
         else fmt_none_passed (sint t)) @ sfx"
    using CalculateScore_message by blast
  have x: "(let s = report_Summary xreport; p = Passed s + XFailed s; t = Total s
      in res_Score (CalculateScore exact_float64 K xreport) =
           (if 0 <s t then 100 * real_of_int (sint p) / real_of_int (sint t) else 0))"
    by (simp add: CalculateScore_score exact_float64_def Let_def)
  show ?thesis
    using assms x
    by (auto simp add: CalculateScore_score CalculateScore_status m Let_def
          zero_prefix_none zero_prefix_all zero_prefix_partial word_sless_alt)
qed

text \<open>
  Instances: three of three passed is Accepted with score 100; one of four is Wrong
  Answer with score 25; none of two is Wrong Answer with the zero-passed message.
\<close>

theorem CalculateScore_score_status_witness:
  "StatusAccepted sample_aoiclient \<noteq> StatusWrongAnswer sample_aoiclient \<and>
   res_Status (CalculateScore exact_float64 sample_aoiclient
      (report_of_summary (sample_summary 3 0 3))) = ''Accepted'' \<and>
   res_Score (CalculateScore exact_float64 sample_aoiclient
      (report_of_summary (sample_summary 3 0 3))) = 100 \<and>
   (0::go_int) <s 1 \<and> (1::go_int) <s 4 \<and>
   res_Status (CalculateScore exact_float64 sample_aoiclient
      (report_of_summary (sample_summary 1 3 4))) = ''Wrong Answer'' \<and>
   res_Score (CalculateScore exact_float64 sample_aoiclient
      (report_of_summary (sample_summary 1 3 4))) = 25 \<and>
   res_Status (CalculateScore exact_float64 sample_aoiclient
      (report_of_summary (sample_summary 0 2 2))) = ''Wrong Answer'' \<and>
   prefix zero_passed_prefix (res_Message (CalculateScore exact_float64 sample_aoiclient
      (report_of_summary (sample_summary 0 2 2))))"
proof -
  have d: "StatusAccepted sample_aoiclient \<noteq> StatusWrongAnswer sample_aoiclient"
    by (simp add: sample_aoiclient_def)
  note a = CalculateScore_score_status [OF d, where F = exact_float64
      and report = "report_of_summary (sample_summary 3 0 3)"
      and xreport = "report_of_summary (sample_summary 3 0 3)"]
  note b = CalculateScore_score_status [OF d, where F = exact_float64
      and report = "report_of_summary (sample_summary 1 3 4)"
      and xreport = "report_of_summary (sample_summary 1 3 4)"]
  note c = CalculateScore_score_status [OF d, where F = exact_float64
      and report = "report_of_summary (sample_summary 0 2 2)"
      and xreport = "report_of_summary (sample_summary 0 2 2)"]
  show ?thesis
    using d a b c
    by (simp add: Let_def report_of_summary_def sample_summary_def sample_aoiclient_def
          exact_float64_def word_sless_alt)
qed

text \<open>
  The empty report (all counts zero) has \<open>passed + xfailed = 0\<close>, and its status is
  Accepted with the all-passed message, not Wrong Answer with the zero-passed one.
\<close>

theorem CalculateScore_empty_report_counterexample:
  "Passed (sample_summary 0 0 0) + XFailed (sample_summary 0 0 0) = 0 \<and>
   res_Status (CalculateScore exact_float64 sample_aoiclient
      (report_of_summary (sample_summary 0 0 0))) = ''Accepted'' \<and>
   StatusWrongAnswer sample_aoiclient = ''Wrong Answer'' \<and>
   \<not> prefix zero_passed_prefix (res_Message (CalculateScore exact_float64 sample_aoiclient
      (report_of_summary (sample_summary 0 0 0))))"
  by (simp add: CalculateScore_def Let_def report_of_summary_def sample_summary_def
        sample_aoiclient_def fmt_all_passed_def zero_passed_prefix_def)

subsection \<open>The two versions of CalculateScore\<close>

text \<open>
  Claim C8. For every pytest report whose summary has zero xfailed tests, the
  simplified and the extended \<open>CalculateScore\<close> return the same score, the same status
  and the same message (the simplified adapter reads the report through
  \<open>simplified_view\<close>).
\<close>

theorem CalculateScore_versions_agree:
  "XFailed (report_Summary report) = 0 \<Longrightarrow>
   res_Score (CalculateScore_v1 F K fmt_2f (simplified_view report)) =
     res_Score (CalculateScore F K report) \<and>
   res_Status (CalculateScore_v1 F K fmt_2f (simplified_view report)) =
     res_Status (CalculateScore F K report) \<and>
   res_Message (CalculateScore_v1 F K fmt_2f (simplified_view report)) =
     res_Message (CalculateScore F K report)"
  by (simp add: CalculateScore_def CalculateScore_v1_def simplified_view_def Let_def)

text \<open>An instance: one of four tests passed, none expected to fail.\<close>

theorem CalculateScore_versions_agree_witness:
  "XFailed (report_Summary (report_of_summary (sample_summary 1 3 4))) = 0 \<and>
   res_Score (CalculateScore_v1 exact_float64 sample_aoiclient (\<lambda>d. ''0.00'')
      (simplified_view (report_of_summary (sample_summary 1 3 4)))) = 25 \<and>
   res_Score (CalculateScore exact_float64 sample_aoiclient
      (report_of_summary (sample_summary 1 3 4))) = 25 \<and>
   res_Status (CalculateScore_v1 exact_float64 sample_aoiclient (\<lambda>d. ''0.00'')
      (simplified_view (report_of_summary (sample_summary 1 3 4)))) = ''Wrong Answer'' \<and>
   res_Message (CalculateScore_v1 exact_float64 sample_aoiclient (\<lambda>d. ''0.00'')
      (simplified_view (report_of_summary (sample_summary 1 3 4)))) =
   res_Message (CalculateScore exact_float64 sample_aoiclient
      (report_of_summary (sample_summary 1 3 4)))"
proof -
  have h: "XFailed (report_Summary (report_of_summary (sample_summary 1 3 4))) = 0"
    by (simp add: report_of_summary_def sample_summary_def)
  have s: "res_Score (CalculateScore exact_float64 sample_aoiclient
      (report_of_summary (sample_summary 1 3 4))) = 25"
    "res_Status (CalculateScore exact_float64 sample_aoiclient
      (report_of_summary (sample_summary 1 3 4))) = ''Wrong Answer''"
    by (simp_all add: CalculateScore_def Let_def report_of_summary_def sample_summary_def
        sample_aoiclient_def exact_float64_def word_sless_alt)
  show ?thesis
    using h s CalculateScore_versions_agree [OF h, where F = exact_float64 and K = sample_aoiclient and fmt_2f = "\<lambda>d. ''0.00''"]
    by simp
qed

section \<open>Properties of the manager\<close>

text \<open>
  The sources hold two revisions of the manager. The model follows the later one, in
  which \<open>run\<close> creates the output directory, returns after the timeout and the memory
  report, and reads the report through the adapter; \<open>processMessage\<close>, \<open>failSoln\<close> and the
  loop of \<open>Start\<close> are the same in both.
\<close>

subsection \<open>Counting and reading events\<close>

lemma complete_calls_Nil: "complete_calls [] = 0"
  by (simp add: complete_calls_def)

lemma streamed_lines_Nil: "streamed_lines [] = []"
  by (simp add: streamed_lines_def)

lemma complete_calls_append:
  "complete_calls (xs @ ys) = complete_calls xs + complete_calls ys"
  by (simp add: complete_calls_def)

lemma complete_calls_Cons:
  "complete_calls (e # es) = (if is_Complete e then 1 else 0) + complete_calls es"
  by (simp add: complete_calls_def)

lemma streamed_lines_append:
  "streamed_lines (xs @ ys) = streamed_lines xs @ streamed_lines ys"
  by (simp add: streamed_lines_def)

lemma streamed_lines_Cons: "streamed_lines (e # es) = callback_line e @ streamed_lines es"
  by (simp add: streamed_lines_def)

lemma streamed_lines_Queue: "streamed_lines (map Queue cs) = []"
  by (induction cs) (simp_all add: streamed_lines_def)

lemmas event_counts =
  complete_calls_Nil complete_calls_Cons complete_calls_append
  streamed_lines_Nil streamed_lines_Cons streamed_lines_append streamed_lines_Queue

lemma solution_info_final:
  "solution_info (before @ map Queue [Patch info, SaveDetails details, Complete]) = Some info"
  by (simp add: solution_info_def)

lemma solution_info_final2:
  "solution_info (before @ [Queue (Patch info), Queue Complete]) = Some info"
  by (simp add: solution_info_def)

lemma solution_info_callback: "solution_info (events @ [Callback line]) = solution_info events"
  by (simp add: solution_info_def)

lemma stream_Nil: "stream F K m [] = []"
  by (simp add: stream_def)

lemma stream_Cons:
  "stream F K m (line # lines) =
     Callback line # map Queue (processMessage F K m line) @ stream F K m lines"
  by (simp add: stream_def)

lemma complete_calls_processMessage:
  "complete_calls (map Queue (processMessage F K m line)) = (if complete_line m line then 1 else 0)"
  by (simp add: processMessage_def complete_line_def complete_calls_def
        split: sum.split Action.split)

lemma complete_calls_stream:
  "complete_calls (stream F K m lines) = length (filter (complete_line m) lines)"
  by (induction lines)
     (simp_all add: stream_Nil stream_Cons complete_calls_Nil complete_calls_Cons
        complete_calls_append complete_calls_processMessage)

lemma streamed_lines_stream: "streamed_lines (stream F K m lines) = lines"
  by (induction lines)
     (simp_all add: stream_Nil stream_Cons streamed_lines_Nil streamed_lines_Cons
        streamed_lines_append streamed_lines_Queue)

lemma complete_calls_failSoln: "complete_calls (map Queue (failSoln F K reason)) = 1"
  by (simp add: failSoln_def complete_calls_def)

lemma complete_calls_lfs1_report:
  "lfs1_report F K m rc outputDir = (calls, processed) \<Longrightarrow>
   complete_calls (map Queue calls) = 0"
  by (auto simp add: lfs1_report_def complete_calls_def Let_def
        split: option.splits sum.splits)

lemma complete_calls_run_result:
  "complete_calls (map Queue (run_result F K m soln rc outputDir execConfig result)) = 1"
  by (auto simp add: run_result_def complete_calls_Nil complete_calls_Cons
        complete_calls_append Let_def
        split: prod.split dest: complete_calls_lfs1_report)

subsection \<open>Where the Complete calls are\<close>

lemma forwarded_completes_single:
  "forwarded_completes m ys \<Longrightarrow>
   forwarded_completes m (Callback line # ys) = (\<not> complete_line m line)"
  by (cases "(m, ys)" rule: forwarded_completes.cases) auto

lemma forwarded_completes_append:
  "forwarded_completes m xs \<Longrightarrow> forwarded_completes m ys \<Longrightarrow> forwarded_completes m (xs @ ys)"
  by (induction m xs rule: forwarded_completes.induct)
     (auto simp add: forwarded_completes_single)

lemma forwarded_completes_Queue:
  "Complete \<notin> set cs \<Longrightarrow> forwarded_completes m (map Queue cs @ rest) = forwarded_completes m rest"
proof (induction cs)
  case Nil
  then show ?case by simp
next
  case (Cons c cs)
  then show ?case by (cases c) simp_all
qed

lemma processMessage_cases:
  "(complete_line m line \<and> processMessage F K m line = [Complete]) \<or>
   (\<not> complete_line m line \<and> Complete \<notin> set (processMessage F K m line))"
  by (simp add: processMessage_def complete_line_def split: sum.split Action.split)

lemma forwarded_completes_stream: "forwarded_completes m (stream F K m lines)"
proof (induction lines)
  case Nil
  then show ?case by (simp add: stream_Nil)
next
  case (Cons line lines)
  show ?case
  proof (cases "complete_line m line")
    case True
    then have "processMessage F K m line = [Complete]"
      using processMessage_cases [of m line F K] by simp
    with True Cons show ?thesis by (simp add: stream_Cons)
  next
    case False
    then have n: "Complete \<notin> set (processMessage F K m line)"
      using processMessage_cases [of m line F K] by simp
    have "forwarded_completes m (map Queue (processMessage F K m line) @ stream F K m lines)"
      using forwarded_completes_Queue [OF n] Cons by simp
    then show ?thesis
      using False by (simp add: stream_Cons forwarded_completes_single)
  qed
qed

lemma forwarded_completes_streamed:
  "forwarded_completes m (Queue (Patch info) # Dispatch config # stream F K m lines)"
  by (simp add: forwarded_completes_stream)

lemma lfs1_report_no_Complete:
  "lfs1_report F K m rc outputDir = (calls, processed) \<Longrightarrow> Complete \<notin> set calls"
  by (auto simp add: lfs1_report_def Let_def split: option.splits sum.splits)

lemma run_result_ends:
  "\<exists>calls. run_result F K m soln rc outputDir execConfig result = calls @ [Complete] \<and>
     Complete \<notin> set calls"
proof (cases "TimedOut result \<or> OOM result")
  case True
  then show ?thesis
    by (cases "TimedOut result") (simp_all add: run_result_def)
next
  case False
  obtain calls processed where l:
    "(if Adapter (Judge (ProblemConfig soln)) = ''lfs1''
      then lfs1_report F K m rc outputDir else ([], False)) = (calls, processed)"
    by (cases "if Adapter (Judge (ProblemConfig soln)) = ''lfs1''
      then lfs1_report F K m rc outputDir else ([], False)") simp
  then have n: "Complete \<notin> set calls"
    using lfs1_report_no_Complete [of F K m rc outputDir calls processed]
    by (auto split: if_splits)
  define extra where "extra =
     (if \<not> processed \<and> ExitCode result \<noteq> 0
      then [Patch \<lparr>Score = f64_of_int F 0, Status = StatusInternalError K,
                   Message = abnormal_exit_message (ExitCode result)\<rparr>]
      else [])"
  have e: "Complete \<notin> set extra"
    by (simp add: extra_def)
  have "run_result F K m soln rc outputDir execConfig result = (calls @ extra) @ [Complete]"
    using False l by (simp add: run_result_def extra_def)
  moreover have "Complete \<notin> set (calls @ extra)"
    using n e by simp
  ultimately show ?thesis by blast
qed

lemma failSoln_ends:
  "\<exists>calls. failSoln F K reason = calls @ [Complete] \<and> Complete \<notin> set calls"
  by (simp add: failSoln_def)

subsection \<open>The paths of run\<close>

lemma buildExecuteConfig_Inr:
  "rc_DockerCmd rc \<noteq> [] \<Longrightarrow> \<exists>config. buildExecuteConfig m soln rc outputDir = Inr config"
  by (simp add: buildExecuteConfig_def Let_def)

lemma buildExecuteConfig_no_command:
  "rc_DockerCmd rc = [] \<Longrightarrow>
   buildExecuteConfig m soln rc outputDir = Inl ''docker_cmd is required in judge config''"
  by (simp add: buildExecuteConfig_def)

lemma buildExecuteConfig_limits:
  "buildExecuteConfig m soln rc outputDir = Inr config \<Longrightarrow>
   Timeout config = (if rc_Timeout rc = 0 then 600 else rc_Timeout rc) \<and>
   MemoryLimit config = (if rc_MemoryLimit rc = 0 then 2048 else rc_MemoryLimit rc)"
  by (auto simp add: buildExecuteConfig_def Let_def split: if_splits)

lemma run_with_result:
  assumes "json_Unmarshal_RunningConfig m (Config (Judge (ProblemConfig soln))) = Inr rc"
    and "os_MkdirTemp m (''judge-output-'' @ SolutionId soln @ ''-'') = Inr outputDir"
    and "buildExecuteConfig m soln rc outputDir = Inr execConfig"
    and "ExecuteWithLogs m execConfig = (lines, Inr result)"
  shows "run F K m soln =
       (Queue (Patch (running_info F)) # Dispatch execConfig # stream F K m lines @
        map Queue (run_result F K m soln rc outputDir execConfig result), None)"
  using assms by (simp add: run_def Let_def)

lemma run_rejected:
  assumes "config_rejected m soln"
  shows "\<exists>err. snd (run F K m soln) = Some err \<and>
           \<not> list_ex is_Dispatch (fst (run F K m soln))"
proof (cases "json_Unmarshal_RunningConfig m (Config (Judge (ProblemConfig soln)))")
  case (Inl err)
  then show ?thesis by (simp add: run_def)
next
  case (Inr rc)
  with assms have "rc_DockerCmd rc = []" by (simp add: config_rejected_def)
  then show ?thesis
    using Inr by (simp add: run_def Let_def buildExecuteConfig_no_command split: sum.split)
qed

lemma sample_ids: "SolutionId sample_soln \<noteq> []" "TaskId sample_soln \<noteq> []"
  by (simp_all add: sample_soln_def)

lemma sample_run:
  fixes lines result
  defines "m \<equiv> sample_manager (Inr (sample_rc [''/judge.sh''] Map.empty)) lines (Inr result)"
  shows "\<exists>config. Timeout config = 600 \<and> MemoryLimit config = 512 \<and>
     buildExecuteConfig m sample_soln (sample_rc [''/judge.sh''] Map.empty)
       ''/tmp/judge-output-s1-0'' = Inr config \<and>
     ExecuteWithLogs m config = (lines, Inr result) \<and>
     run exact_float64 sample_aoiclient m sample_soln =
       (Queue (Patch (running_info exact_float64)) # Dispatch config #
        stream exact_float64 sample_aoiclient m lines @
        map Queue (run_result exact_float64 sample_aoiclient m sample_soln
          (sample_rc [''/judge.sh''] Map.empty) ''/tmp/judge-output-s1-0'' config result), None)"
proof -
  let ?rc = "sample_rc [''/judge.sh''] Map.empty"
  have "rc_DockerCmd ?rc \<noteq> []"
    by (simp add: sample_rc_def)
  then obtain config
    where c: "buildExecuteConfig m sample_soln ?rc ''/tmp/judge-output-s1-0'' = Inr config"
    using buildExecuteConfig_Inr by blast
  have e: "ExecuteWithLogs m config = (lines, Inr result)"
    by (simp add: m_def sample_manager_def)
  have "run exact_float64 sample_aoiclient m sample_soln =
       (Queue (Patch (running_info exact_float64)) # Dispatch config #
        stream exact_float64 sample_aoiclient m lines @
        map Queue (run_result exact_float64 sample_aoiclient m sample_soln ?rc
          ''/tmp/judge-output-s1-0'' config result), None)"
    by (rule run_with_result [OF _ _ c e]) (simp_all add: m_def sample_manager_def sample_soln_def)
  moreover have "Timeout config = 600 \<and> MemoryLimit config = 512"
    using buildExecuteConfig_limits [OF c] by (simp add: sample_rc_def)
  ultimately show ?thesis using c e by blast
qed

lemma run_forwarded:
  "(\<exists>err. snd (run F K m soln) = Some err \<and> forwarded_completes m (fst (run F K m soln))) \<or>
   (snd (run F K m soln) = None \<and>
    (\<exists>before. fst (run F K m soln) = before @ [Queue Complete] \<and>
       forwarded_completes m before))"
proof (cases "json_Unmarshal_RunningConfig m (Config (Judge (ProblemConfig soln)))")
  case (Inl err)
  then show ?thesis by (simp add: run_def)
next
  case rc: (Inr rc)
  show ?thesis
  proof (cases "os_MkdirTemp m (''judge-output-'' @ SolutionId soln @ ''-'')")
    case (Inl err)
    then show ?thesis using rc by (simp add: run_def)
  next
    case dir: (Inr outputDir)
    show ?thesis
    proof (cases "buildExecuteConfig m soln rc outputDir")
      case (Inl err)
      then show ?thesis using rc dir by (simp add: run_def)
    next
      case cfg: (Inr execConfig)
      obtain lines res where ex: "ExecuteWithLogs m execConfig = (lines, res)"
        by (cases "ExecuteWithLogs m execConfig") simp
      let ?streamed = "Queue (Patch (running_info F)) # Dispatch execConfig # stream F K m lines"
      have st: "forwarded_completes m ?streamed"
        by (rule forwarded_completes_streamed)
      show ?thesis
      proof (cases res)
        case (Inl err)
        then have "run F K m soln = (?streamed, Some (''docker execution failed: '' @ err))"
          using rc dir cfg ex by (simp add: run_def)
        then show ?thesis using st by simp
      next
        case (Inr result)
        obtain calls where c:
          "run_result F K m soln rc outputDir execConfig result = calls @ [Complete]"
          "Complete \<notin> set calls"
          using run_result_ends by blast
        have "forwarded_completes m (map Queue calls @ [])"
          using forwarded_completes_Queue [OF c(2), of m "[]"] by simp
        then have f: "forwarded_completes m (?streamed @ map Queue calls)"
          using forwarded_completes_append [OF st] by simp
        have "run F K m soln = ((?streamed @ map Queue calls) @ [Queue Complete], None)"
          using rc dir cfg ex Inr c(1) by (simp add: run_def)
        then show ?thesis using f by (metis fst_conv snd_conv)
      qed
    qed
  qed
qed

subsection \<open>Terminal complete calls\<close>

text \<open>
  Claim C1, as the code has it. For every task the manager claims (a poll with a
  solution id and a task id), on every path (normal exit, timeout, out of memory,
  configuration error, infrastructure error) the manager itself issues exactly one
  Complete call, at the end of the task: it is the last event. Every Complete message
  the container writes is forwarded as one more Complete call while streaming, right
  after the callback of its line, and no other Complete call is issued before the last
  one. The number of Complete calls of a task is therefore one plus the number of
  streamed lines that decode to a Complete message: exactly one when the container
  writes none.
\<close>

theorem complete_calls_per_task:
  assumes "SolutionId soln \<noteq> []" and "TaskId soln \<noteq> []"
  shows
    "(\<exists>before. Start_iteration F K m (Inr soln) = before @ [Queue Complete] \<and>
        forwarded_completes m before) \<and>
     complete_calls (Start_iteration F K m (Inr soln)) =
       1 + length (filter (complete_line m)
             (streamed_lines (Start_iteration F K m (Inr soln))))"
proof -
  have count: "complete_calls (Start_iteration F K m (Inr soln)) =
       1 + length (filter (complete_line m)
             (streamed_lines (Start_iteration F K m (Inr soln))))"
    using assms
    by (simp add: Start_iteration_def run_def Let_def event_counts
        complete_calls_stream streamed_lines_stream complete_calls_failSoln
        complete_calls_run_result
        split: sum.split prod.split option.split)
  have "\<exists>before. Start_iteration F K m (Inr soln) = before @ [Queue Complete] \<and>
        forwarded_completes m before"
  proof (cases "snd (run F K m soln)")
    case None
    then have "Start_iteration F K m (Inr soln) = fst (run F K m soln)"
      using assms by (cases "run F K m soln") (simp add: Start_iteration_def)
    then show ?thesis
      using None run_forwarded [of F K m soln] by simp
  next
    case (Some err)
    then have f: "forwarded_completes m (fst (run F K m soln))"
      using run_forwarded [of F K m soln] by simp
    obtain calls where c: "failSoln F K (''Failed to run solution: '' @ err) = calls @ [Complete]"
      "Complete \<notin> set calls"
      using failSoln_ends by blast
    have "forwarded_completes m (map Queue calls @ [])"
      using forwarded_completes_Queue [OF c(2), of m "[]"] by simp
    then have g: "forwarded_completes m (fst (run F K m soln) @ map Queue calls)"
      using forwarded_completes_append [OF f] by simp
    have "Start_iteration F K m (Inr soln) =
        (fst (run F K m soln) @ map Queue calls) @ [Queue Complete]"
      using assms Some c(1) by (cases "run F K m soln") (simp add: Start_iteration_def)
    then show ?thesis using g by blast
  qed
  then show ?thesis using count by simp
qed

text \<open>
  Instances: a container that prints a banner and a Patch message and exits with code 1,
  and a task whose judge configuration does not parse; one Complete call each, as the
  last event.
\<close>

theorem complete_calls_per_task_witness:
  "SolutionId sample_soln \<noteq> [] \<and> TaskId sample_soln \<noteq> [] \<and>
   complete_calls (Start_iteration exact_float64 sample_aoiclient
      (sample_manager (Inr (sample_rc [''/judge.sh''] Map.empty)) [''=== LFS Auto Grader ==='', ''p'']
         (Inr (sample_result False False 1)))
      (Inr sample_soln)) = 1 \<and>
   complete_calls (Start_iteration exact_float64 sample_aoiclient
      (sample_manager (Inl ''unexpected end of JSON input'') [] (Inl []))
      (Inr sample_soln)) = 1 \<and>
   last (Start_iteration exact_float64 sample_aoiclient
      (sample_manager (Inr (sample_rc [''/judge.sh''] Map.empty)) [''=== LFS Auto Grader ==='', ''p'']
         (Inr (sample_result False False 1)))
      (Inr sample_soln)) = Queue Complete \<and>
   last (Start_iteration exact_float64 sample_aoiclient
      (sample_manager (Inl ''unexpected end of JSON input'') [] (Inl []))
      (Inr sample_soln)) = Queue Complete"
proof -
  let ?a = "sample_manager (Inr (sample_rc [''/judge.sh''] Map.empty))
      [''=== LFS Auto Grader ==='', ''p''] (Inr (sample_result False False 1))"
  let ?b = "sample_manager (Inl ''unexpected end of JSON input'') [] (Inl [])"
  have ra: "streamed_lines (fst (run exact_float64 sample_aoiclient ?a sample_soln)) =
      [''=== LFS Auto Grader ==='', ''p''] \<and>
      snd (run exact_float64 sample_aoiclient ?a sample_soln) = None"
    using sample_run [of "[''=== LFS Auto Grader ==='', ''p'']" "sample_result False False 1"]
    by (auto simp add: event_counts streamed_lines_stream)
  have sa: "streamed_lines (Start_iteration exact_float64 sample_aoiclient ?a (Inr sample_soln)) =
      [''=== LFS Auto Grader ==='', ''p'']"
    using ra sample_ids
    by (cases "run exact_float64 sample_aoiclient ?a sample_soln")
       (simp add: Start_iteration_def event_counts)
  have sb: "streamed_lines (Start_iteration exact_float64 sample_aoiclient ?b (Inr sample_soln)) = []"
    using sample_ids
    by (simp add: Start_iteration_def run_def sample_manager_def event_counts)
  have l: "\<not> complete_line ?a ''=== LFS Auto Grader ===''" "\<not> complete_line ?a ''p''"
    by (simp_all add: complete_line_def sample_manager_def sample_MessageFromString_def)
  show ?thesis
    using sample_ids l
      complete_calls_per_task [OF sample_ids, where F = exact_float64
        and K = sample_aoiclient and m = ?a]
      complete_calls_per_task [OF sample_ids, where F = exact_float64
        and K = sample_aoiclient and m = ?b]
    by (auto simp add: sa sb)
qed

text \<open>
  A container that writes a Patch message and then a Complete message, and exits with
  code 0: two Complete calls reach the queue, the forwarded one and the closing one.
\<close>

theorem complete_calls_twice_counterexample:
  "streamed_lines (Start_iteration exact_float64 sample_aoiclient
      (sample_manager (Inr (sample_rc [''/judge.sh''] Map.empty)) [''p'', ''c'']
         (Inr (sample_result False False 0)))
      (Inr sample_soln)) = [''p'', ''c''] \<and>
   complete_calls (Start_iteration exact_float64 sample_aoiclient
      (sample_manager (Inr (sample_rc [''/judge.sh''] Map.empty)) [''p'', ''c'']
         (Inr (sample_result False False 0)))
      (Inr sample_soln)) = 2"
proof -
  let ?rc = "sample_rc [''/judge.sh''] Map.empty"
  let ?m = "sample_manager (Inr ?rc) [''p'', ''c''] (Inr (sample_result False False 0))"
  have "rc_DockerCmd ?rc \<noteq> []"
    by (simp add: sample_rc_def)
  then obtain config
    where c: "buildExecuteConfig ?m sample_soln ?rc ''/tmp/judge-output-s1-0'' = Inr config"
    using buildExecuteConfig_Inr by blast
  have r: "run exact_float64 sample_aoiclient ?m sample_soln =
     (Queue (Patch (running_info exact_float64)) # Dispatch config #
      stream exact_float64 sample_aoiclient ?m [''p'', ''c''] @
      map Queue (run_result exact_float64 sample_aoiclient ?m sample_soln ?rc
        ''/tmp/judge-output-s1-0'' config (sample_result False False 0)), None)"
    by (rule run_with_result [OF _ _ c]) (simp_all add: sample_manager_def sample_soln_def)
  have l: "complete_line ?m ''c''" "\<not> complete_line ?m ''p''"
    by (simp_all add: complete_line_def sample_manager_def sample_MessageFromString_def)
  have s: "SolutionId sample_soln \<noteq> [] \<and> TaskId sample_soln \<noteq> []"
    by (simp add: sample_soln_def)
  show ?thesis
    using s l
    by (simp add: Start_iteration_def r event_counts
          complete_calls_stream streamed_lines_stream complete_calls_run_result)
qed

subsection \<open>Timeout and memory outcomes\<close>

text \<open>
  Claim C2. When the judge configuration parses, the output directory and the execution
  configuration are built, and the executor returns a result with \<open>TimedOut\<close> or \<open>OOM\<close>
  set, then after the streamed lines \<open>run\<close> issues exactly a Patch with score 0 and the
  dedicated status, a SaveDetails and the Complete call, and returns nil. The status is
  Time Limit Exceeded whenever \<open>TimedOut\<close> is set, also when \<open>OOM\<close> is set too, and Memory
  Limit Exceeded when only \<open>OOM\<close> is set. Whatever the container patched while
  streaming, the Solution Info at the end is that of the final Patch.
\<close>

theorem timeout_oom_override:
  assumes "json_Unmarshal_RunningConfig m (Config (Judge (ProblemConfig soln))) = Inr rc"
    and "os_MkdirTemp m (''judge-output-'' @ SolutionId soln @ ''-'') = Inr outputDir"
    and "buildExecuteConfig m soln rc outputDir = Inr execConfig"
    and "ExecuteWithLogs m execConfig = (lines, Inr result)"
    and "TimedOut result \<or> OOM result"
  shows
    "run F K m soln =
       (Queue (Patch (running_info F)) # Dispatch execConfig # stream F K m lines @
        map Queue
          [Patch \<lparr>Score = f64_of_int F 0,
                  Status = (if TimedOut result then StatusTimeLimitExceeded K
                            else StatusMemoryLimitExceeded K),
                  Message = (if TimedOut result then timeout_message (Timeout execConfig)
                             else oom_message (MemoryLimit execConfig))\<rparr>,
           SaveDetails \<lparr>Version = 0,
                        Summary = (if TimedOut result then timeout_summary (Timeout execConfig)
                                   else oom_summary (MemoryLimit execConfig)),
                        Jobs = []\<rparr>,
           Complete],
        None) \<and>
     solution_info (fst (run F K m soln)) =
       Some \<lparr>Score = f64_of_int F 0,
             Status = (if TimedOut result then StatusTimeLimitExceeded K
                       else StatusMemoryLimitExceeded K),
             Message = (if TimedOut result then timeout_message (Timeout execConfig)
                        else oom_message (MemoryLimit execConfig))\<rparr>"
proof -
  have r: "run F K m soln =
       (Queue (Patch (running_info F)) # Dispatch execConfig # stream F K m lines @
        map Queue (run_result F K m soln rc outputDir execConfig result), None)"
    using assms(1-4) by (simp add: run_def Let_def)
  show ?thesis
  proof (cases "TimedOut result")
    case True
    have "run_result F K m soln rc outputDir execConfig result =
        [Patch \<lparr>Score = f64_of_int F 0, Status = StatusTimeLimitExceeded K,
                Message = timeout_message (Timeout execConfig)\<rparr>,
         SaveDetails \<lparr>Version = 0, Summary = timeout_summary (Timeout execConfig), Jobs = []\<rparr>,
         Complete]"
      using True by (simp add: run_result_def)
    with r True show ?thesis
      using solution_info_final [of "Queue (Patch (running_info F)) # Dispatch execConfig # stream F K m lines"]
      by simp
  next
    case False
    with assms(5) have o: "OOM result" by simp
    have "run_result F K m soln rc outputDir execConfig result =
        [Patch \<lparr>Score = f64_of_int F 0, Status = StatusMemoryLimitExceeded K,
                Message = oom_message (MemoryLimit execConfig)\<rparr>,
         SaveDetails \<lparr>Version = 0, Summary = oom_summary (MemoryLimit execConfig), Jobs = []\<rparr>,
         Complete]"
      using False o by (simp add: run_result_def)
    with r False show ?thesis
      using solution_info_final [of "Queue (Patch (running_info F)) # Dispatch execConfig # stream F K m lines"]
      by simp
  qed
qed

text \<open>
  Instances: the container patches score 85.5, Accepted, and the run ends with both flags
  set (Time Limit Exceeded wins), or with \<open>OOM\<close> alone.
\<close>

theorem timeout_oom_override_witness:
  "TimedOut (sample_result True True 137) \<and> OOM (sample_result True True 137) \<and>
   processMessage exact_float64 sample_aoiclient
     (sample_manager (Inr (sample_rc [''/judge.sh''] Map.empty)) [''p'']
        (Inr (sample_result True True 137))) ''p'' =
     [Patch \<lparr>Score = 85.5, Status = ''Accepted'', Message = ''ok''\<rparr>] \<and>
   solution_info (fst (run exact_float64 sample_aoiclient
     (sample_manager (Inr (sample_rc [''/judge.sh''] Map.empty)) [''p'']
        (Inr (sample_result True True 137))) sample_soln)) =
     Some \<lparr>Score = 0, Status = ''Time Limit Exceeded'', Message = timeout_message 600\<rparr> \<and>
   solution_info (fst (run exact_float64 sample_aoiclient
     (sample_manager (Inr (sample_rc [''/judge.sh''] Map.empty)) [''p'']
        (Inr (sample_result False True 137))) sample_soln)) =
     Some \<lparr>Score = 0, Status = ''Memory Limit Exceeded'', Message = oom_message 512\<rparr>"
proof -
  let ?rc = "sample_rc [''/judge.sh''] Map.empty"
  let ?a = "sample_manager (Inr ?rc) [''p''] (Inr (sample_result True True 137))"
  let ?b = "sample_manager (Inr ?rc) [''p''] (Inr (sample_result False True 137))"
  obtain ca where ca: "Timeout ca = 600"
    "buildExecuteConfig ?a sample_soln ?rc ''/tmp/judge-output-s1-0'' = Inr ca"
    "ExecuteWithLogs ?a ca = ([''p''], Inr (sample_result True True 137))"
    using sample_run [of "[''p'']" "sample_result True True 137"] by blast
  obtain cb where cb: "MemoryLimit cb = 512"
    "buildExecuteConfig ?b sample_soln ?rc ''/tmp/judge-output-s1-0'' = Inr cb"
    "ExecuteWithLogs ?b cb = ([''p''], Inr (sample_result False True 137))"
    using sample_run [of "[''p'']" "sample_result False True 137"] by blast
  have ja: "json_Unmarshal_RunningConfig ?a (Config (Judge (ProblemConfig sample_soln))) = Inr ?rc"
    and jb: "json_Unmarshal_RunningConfig ?b (Config (Judge (ProblemConfig sample_soln))) = Inr ?rc"
    by (simp_all add: sample_manager_def)
  have da: "os_MkdirTemp ?a (''judge-output-'' @ SolutionId sample_soln @ ''-'') =
      Inr ''/tmp/judge-output-s1-0''"
    and db: "os_MkdirTemp ?b (''judge-output-'' @ SolutionId sample_soln @ ''-'') =
      Inr ''/tmp/judge-output-s1-0''"
    by (simp_all add: sample_manager_def sample_soln_def)
  have fa: "TimedOut (sample_result True True 137) \<or> OOM (sample_result True True 137)"
    and fb: "TimedOut (sample_result False True 137) \<or> OOM (sample_result False True 137)"
    by (simp_all add: sample_result_def)
  have p: "processMessage exact_float64 sample_aoiclient ?a ''p'' =
     [Patch \<lparr>Score = 85.5, Status = ''Accepted'', Message = ''ok''\<rparr>]"
    by (simp add: processMessage_def sample_manager_def sample_MessageFromString_def)
  have k: "StatusTimeLimitExceeded sample_aoiclient = ''Time Limit Exceeded''"
    "StatusMemoryLimitExceeded sample_aoiclient = ''Memory Limit Exceeded''"
    "f64_of_int exact_float64 0 = 0"
    by (simp_all add: sample_aoiclient_def exact_float64_def)
  note ta = timeout_oom_override [OF ja da ca(2) ca(3) fa, where F = exact_float64
        and K = sample_aoiclient, THEN conjunct2]
  note tb = timeout_oom_override [OF jb db cb(2) cb(3) fb, where F = exact_float64
        and K = sample_aoiclient, THEN conjunct2]
  show ?thesis
    using p ca(1) cb(1) ta tb by (simp add: sample_result_def k)
qed

subsection \<open>Abnormal exit without a report\<close>

text \<open>
  Claim C4. For every run whose result is neither timed out nor out of memory, if the
  exit code is not zero and no report artifact that the adapter can parse was found,
  the last two calls of \<open>run\<close> are a Patch with score 0, the internal-error status and
  the abnormal-exit message, and then the Complete call. This holds whether or not the
  container sent a Patch or Complete message of its own, so in particular when it sent
  none.
\<close>

theorem abnormal_exit_report:
  assumes "json_Unmarshal_RunningConfig m (Config (Judge (ProblemConfig soln))) = Inr rc"
    and "os_MkdirTemp m (''judge-output-'' @ SolutionId soln @ ''-'') = Inr outputDir"
    and "buildExecuteConfig m soln rc outputDir = Inr execConfig"
    and "ExecuteWithLogs m execConfig = (lines, Inr result)"
    and "\<not> TimedOut result" and "\<not> OOM result" and "ExitCode result \<noteq> 0"
    and "\<not> parseable_artifact m soln rc outputDir"
  shows
    "snd (run F K m soln) = None \<and>
     (\<exists>before. fst (run F K m soln) =
        before @
        [Queue (Patch \<lparr>Score = f64_of_int F 0, Status = StatusInternalError K,
                        Message = abnormal_exit_message (ExitCode result)\<rparr>),
         Queue Complete]) \<and>
     solution_info (fst (run F K m soln)) =
       Some \<lparr>Score = f64_of_int F 0, Status = StatusInternalError K,
             Message = abnormal_exit_message (ExitCode result)\<rparr>"
proof -
  have r: "run F K m soln =
       (Queue (Patch (running_info F)) # Dispatch execConfig # stream F K m lines @
        map Queue (run_result F K m soln rc outputDir execConfig result), None)"
    using assms(1-4) by (simp add: run_def Let_def)
  have "\<exists>calls. run_result F K m soln rc outputDir execConfig result =
      calls @ [Patch \<lparr>Score = f64_of_int F 0, Status = StatusInternalError K,
                      Message = abnormal_exit_message (ExitCode result)\<rparr>, Complete]"
    using assms(5-8)
    by (auto simp add: run_result_def parseable_artifact_def lfs1_report_def Let_def
          split: option.splits sum.splits)
  then obtain calls where c: "run_result F K m soln rc outputDir execConfig result =
      calls @ [Patch \<lparr>Score = f64_of_int F 0, Status = StatusInternalError K,
                      Message = abnormal_exit_message (ExitCode result)\<rparr>, Complete]"
    by blast
  have e: "fst (run F K m soln) =
      (Queue (Patch (running_info F)) # Dispatch execConfig # stream F K m lines @
       map Queue calls) @
      [Queue (Patch \<lparr>Score = f64_of_int F 0, Status = StatusInternalError K,
                      Message = abnormal_exit_message (ExitCode result)\<rparr>),
       Queue Complete]"
    using r c by simp
  show ?thesis
    using r e solution_info_final2 [of "Queue (Patch (running_info F)) # Dispatch execConfig #
      stream F K m lines @ map Queue calls"]
    by (metis snd_conv)
qed

text \<open>
  An instance: the container prints one line of text and exits with code 1; no report
  file exists.
\<close>

theorem abnormal_exit_report_witness:
  "\<not> TimedOut (sample_result False False 1) \<and> \<not> OOM (sample_result False False 1) \<and>
   ExitCode (sample_result False False 1) \<noteq> 0 \<and>
   \<not> parseable_artifact
       (sample_manager (Inr (sample_rc [''/judge.sh''] Map.empty)) [''Unknown file type.'']
          (Inr (sample_result False False 1)))
       sample_soln (sample_rc [''/judge.sh''] Map.empty) ''/tmp/judge-output-s1-0'' \<and>
   solution_info (fst (run exact_float64 sample_aoiclient
     (sample_manager (Inr (sample_rc [''/judge.sh''] Map.empty)) [''Unknown file type.'']
        (Inr (sample_result False False 1))) sample_soln)) =
     Some \<lparr>Score = 0, Status = ''Internal Error'', Message = abnormal_exit_message 1\<rparr>"
proof -
  let ?rc = "sample_rc [''/judge.sh''] Map.empty"
  let ?m = "sample_manager (Inr ?rc) [''Unknown file type.''] (Inr (sample_result False False 1))"
  obtain c where c:
    "buildExecuteConfig ?m sample_soln ?rc ''/tmp/judge-output-s1-0'' = Inr c"
    "ExecuteWithLogs ?m c = ([''Unknown file type.''], Inr (sample_result False False 1))"
    using sample_run [of "[''Unknown file type.'']" "sample_result False False 1"] by blast
  have j: "json_Unmarshal_RunningConfig ?m (Config (Judge (ProblemConfig sample_soln))) = Inr ?rc"
    by (simp add: sample_manager_def)
  have d: "os_MkdirTemp ?m (''judge-output-'' @ SolutionId sample_soln @ ''-'') =
      Inr ''/tmp/judge-output-s1-0''"
    by (simp add: sample_manager_def sample_soln_def)
  have f: "\<not> TimedOut (sample_result False False 1)" "\<not> OOM (sample_result False False 1)"
    "ExitCode (sample_result False False 1) \<noteq> 0"
    by (simp_all add: sample_result_def)
  have a: "\<not> parseable_artifact ?m sample_soln ?rc ''/tmp/judge-output-s1-0''"
    by (simp add: parseable_artifact_def sample_manager_def)
  have k: "StatusInternalError sample_aoiclient = ''Internal Error''"
    "f64_of_int exact_float64 0 = 0"
    by (simp_all add: sample_aoiclient_def exact_float64_def)
  note t = abnormal_exit_report [OF j d c(1) c(2) f a, where F = exact_float64
      and K = sample_aoiclient, THEN conjunct2, THEN conjunct2]
  show ?thesis
    using f a t by (simp add: k sample_result_def)
qed

subsection \<open>Lines that are not protocol traffic\<close>

text \<open>
  Claim C5. For every line that is not protocol traffic (the codec rejects it, its
  action tag is unknown, or its body does not unmarshal into the body type of its
  action), \<open>processMessage\<close> issues no queue call: the calls and the Solution Info after
  the line are those before it, and the remaining lines are streamed as usual.
  \<open>processMessage\<close> returns nothing, and the callback returns nil for every line.
\<close>

theorem processMessage_ignores_noise:
  assumes "not_protocol_traffic m line"
  shows
    "processMessage F K m line = [] \<and>
     stream F K m (line # rest) = Callback line # stream F K m rest \<and>
     queue_calls (events @ stream F K m [line]) = queue_calls events \<and>
     solution_info (events @ stream F K m [line]) = solution_info events"
proof -
  have p: "processMessage F K m line = []"
    using assms
    by (auto simp add: not_protocol_traffic_def processMessage_def
          split: sum.splits Action.splits)
  show ?thesis
    using p by (simp add: stream_Nil stream_Cons queue_calls_def solution_info_callback)
qed

text \<open>
  Instances, one for each kind: a banner the codec rejects, a message with an action tag
  of its own, and an Error message whose body does not unmarshal.
\<close>

theorem processMessage_ignores_noise_witness:
  "not_protocol_traffic (sample_manager (Inl []) [] (Inl [])) ''=== LFS Auto Grader ==='' \<and>
   not_protocol_traffic (sample_manager (Inl []) [] (Inl [])) ''x'' \<and>
   not_protocol_traffic (sample_manager (Inl []) [] (Inl [])) ''e'' \<and>
   processMessage exact_float64 sample_aoiclient (sample_manager (Inl []) [] (Inl []))
     ''=== LFS Auto Grader ==='' = [] \<and>
   processMessage exact_float64 sample_aoiclient (sample_manager (Inl []) [] (Inl []))
     ''x'' = [] \<and>
   processMessage exact_float64 sample_aoiclient (sample_manager (Inl []) [] (Inl []))
     ''e'' = []"
proof -
  have a: "not_protocol_traffic (sample_manager (Inl []) [] (Inl [])) ''=== LFS Auto Grader ===''"
    and b: "not_protocol_traffic (sample_manager (Inl []) [] (Inl [])) ''x''"
    and c: "not_protocol_traffic (sample_manager (Inl []) [] (Inl [])) ''e''"
    by (simp_all add: not_protocol_traffic_def sample_manager_def sample_MessageFromString_def)
  show ?thesis
    using a b c
      processMessage_ignores_noise [OF a, where F = exact_float64 and K = sample_aoiclient]
      processMessage_ignores_noise [OF b, where F = exact_float64 and K = sample_aoiclient]
      processMessage_ignores_noise [OF c, where F = exact_float64 and K = sample_aoiclient]
    by simp
qed

subsection \<open>Rejected judge configurations\<close>

text \<open>
  Claim C6. For every claimed task whose judge configuration does not parse, or parses
  with an empty \<open>docker_cmd\<close>, \<open>run\<close> returns an error and the container is never
  dispatched; the loop then reports the failure: a Patch with score 0, the status
  \<open>StatusError\<close> and the message "Failed to run solution: " followed by the error text,
  a SaveDetails with the same summary, and the Complete call.
\<close>

theorem rejected_config_reported:
  assumes "SolutionId soln \<noteq> []" and "TaskId soln \<noteq> []" and "config_rejected m soln"
  shows
    "\<exists>err. snd (run F K m soln) = Some err \<and>
       \<not> list_ex is_Dispatch (Start_iteration F K m (Inr soln)) \<and>
       Start_iteration F K m (Inr soln) =
         fst (run F K m soln) @
         map Queue
           [Patch \<lparr>Score = f64_of_int F 0, Status = StatusError K,
                   Message = ''Failed to run solution: '' @ err\<rparr>,
            SaveDetails \<lparr>Version = 0, Summary = ''Failed to run solution: '' @ err, Jobs = []\<rparr>,
            Complete]"
proof -
  obtain err where e: "snd (run F K m soln) = Some err"
    and d: "\<not> list_ex is_Dispatch (fst (run F K m soln))"
    using run_rejected [OF assms(3)] by blast
  obtain events where r: "run F K m soln = (events, Some err)"
    using e by (cases "run F K m soln") simp
  have s: "Start_iteration F K m (Inr soln) =
      events @ map Queue (failSoln F K (''Failed to run solution: '' @ err))"
    using assms(1,2) r by (simp add: Start_iteration_def)
  show ?thesis
    using e d r s by (simp add: failSoln_def)
qed

text \<open>
  Instances: a configuration that is not JSON, and one without \<open>docker_cmd\<close> (there the
  Running patch is already issued).
\<close>

theorem rejected_config_reported_witness:
  "SolutionId sample_soln \<noteq> [] \<and> TaskId sample_soln \<noteq> [] \<and>
   config_rejected (sample_manager (Inl ''unexpected end of JSON input'') [] (Inl [])) sample_soln \<and>
   config_rejected (sample_manager (Inr (sample_rc [] Map.empty)) [] (Inl [])) sample_soln \<and>
   Start_iteration exact_float64 sample_aoiclient
     (sample_manager (Inl ''unexpected end of JSON input'') [] (Inl [])) (Inr sample_soln) =
     map Queue
       [Patch \<lparr>Score = 0, Status = ''Error'',
               Message = ''Failed to run solution: failed to parse judge config: unexpected end of JSON input''\<rparr>,
        SaveDetails \<lparr>Version = 0,
               Summary = ''Failed to run solution: failed to parse judge config: unexpected end of JSON input'',
               Jobs = []\<rparr>,
        Complete] \<and>
   Start_iteration exact_float64 sample_aoiclient
     (sample_manager (Inr (sample_rc [] Map.empty)) [] (Inl [])) (Inr sample_soln) =
     Queue (Patch (running_info exact_float64)) #
     map Queue
       [Patch \<lparr>Score = 0, Status = ''Error'',
               Message = ''Failed to run solution: failed to build execute config: docker_cmd is required in judge config''\<rparr>,
        SaveDetails \<lparr>Version = 0,
               Summary = ''Failed to run solution: failed to build execute config: docker_cmd is required in judge config'',
               Jobs = []\<rparr>,
        Complete]"
proof -
  let ?a = "sample_manager (Inl ''unexpected end of JSON input'') [] (Inl [])"
  let ?b = "sample_manager (Inr (sample_rc [] Map.empty)) [] (Inl [])"
  have ca: "config_rejected ?a sample_soln" and cb: "config_rejected ?b sample_soln"
    by (simp_all add: config_rejected_def sample_manager_def sample_rc_def)
  have ra: "run exact_float64 sample_aoiclient ?a sample_soln =
      ([], Some ''failed to parse judge config: unexpected end of JSON input'')"
    by (simp add: run_def sample_manager_def)
  have "rc_DockerCmd (sample_rc [] Map.empty) = []"
    by (simp add: sample_rc_def)
  then have rb: "run exact_float64 sample_aoiclient ?b sample_soln =
      ([Queue (Patch (running_info exact_float64))],
       Some ''failed to build execute config: docker_cmd is required in judge config'')"
    by (simp add: run_def Let_def buildExecuteConfig_no_command sample_manager_def)
  have k: "StatusError sample_aoiclient = ''Error''" "f64_of_int exact_float64 0 = 0"
    by (simp_all add: sample_aoiclient_def exact_float64_def)
  show ?thesis
    using sample_ids ca cb
      rejected_config_reported [OF sample_ids ca, where F = exact_float64
        and K = sample_aoiclient]
      rejected_config_reported [OF sample_ids cb, where F = exact_float64
        and K = sample_aoiclient]
    by (simp add: ra rb k)
qed

subsection \<open>Defaults of the execution configuration\<close>

text \<open>
  Claim C7. For every judge configuration with a command, the execution configuration
  is built, its timeout is 600 when the configuration leaves the timeout zero and its
  memory limit 2048 when the configuration leaves the memory limit zero; a declared
  value is passed through unchanged.
\<close>

theorem buildExecuteConfig_defaults:
  "rc_DockerCmd rc \<noteq> [] \<Longrightarrow>
   \<exists>config. buildExecuteConfig m soln rc outputDir = Inr config \<and>
     Timeout config = (if rc_Timeout rc = 0 then 600 else rc_Timeout rc) \<and>
     MemoryLimit config = (if rc_MemoryLimit rc = 0 then 2048 else rc_MemoryLimit rc)"
  by (simp add: buildExecuteConfig_def Let_def)

text \<open>
  An instance: no timeout declared, a memory limit of 512 declared.
\<close>

theorem buildExecuteConfig_defaults_witness:
  "rc_DockerCmd (sample_rc [''/judge.sh''] Map.empty) \<noteq> [] \<and>
   rc_Timeout (sample_rc [''/judge.sh''] Map.empty) = 0 \<and>
   rc_MemoryLimit (sample_rc [''/judge.sh''] Map.empty) = 512 \<and>
   (\<exists>config.
      buildExecuteConfig (sample_manager (Inl []) [] (Inl [])) sample_soln
        (sample_rc [''/judge.sh''] Map.empty) ''/tmp/out'' = Inr config \<and>
      Timeout config = 600 \<and> MemoryLimit config = 512)"
proof -
  have h: "rc_DockerCmd (sample_rc [''/judge.sh''] Map.empty) \<noteq> []"
    by (simp add: sample_rc_def)
  show ?thesis
    using h buildExecuteConfig_defaults [OF h, where m = "sample_manager (Inl []) [] (Inl [])"
        and soln = sample_soln and outputDir = "''/tmp/out''"]
    by (simp add: sample_rc_def)
qed

subsection \<open>The environment of the container\<close>

text \<open>
  Claim C9, as the code has it. For every task whose execution configuration is built,
  the eleven variables that are always injected (\<open>SOLUTION_ID\<close>, \<open>TASK_ID\<close>, \<open>USER_ID\<close>,
  \<open>CONTEST_ID\<close>, \<open>SOLUTION_DATA_URL\<close>, \<open>SOLUTION_DATA_HASH\<close>, \<open>PROBLEM_DATA_URL\<close>,
  \<open>PROBLEM_DATA_HASH\<close>, \<open>PROBLEM_LABEL\<close>, \<open>JUDGE_ADAPTER\<close>, \<open>OUTPUT_DIR\<close>) have their fixed
  values whatever the task-declared \<open>env\<close> map says. \<open>JUDGE_VARIABLES\<close> is injected only when
  the configuration declares \<open>variables\<close> and they serialise; then it takes precedence
  too, and otherwise an entry of that name in the \<open>env\<close> map reaches the container as
  declared.
\<close>

theorem container_env_fixed_variables:
  "rc_DockerCmd rc \<noteq> [] \<Longrightarrow>
   container_env m soln rc outputDir ''SOLUTION_ID'' = Some (SolutionId soln) \<and>
   container_env m soln rc outputDir ''TASK_ID'' = Some (TaskId soln) \<and>
   container_env m soln rc outputDir ''USER_ID'' = Some (UserId soln) \<and>
   container_env m soln rc outputDir ''CONTEST_ID'' = Some (ContestId soln) \<and>
   container_env m soln rc outputDir ''SOLUTION_DATA_URL'' = Some (SolutionDataUrl soln) \<and>
   container_env m soln rc outputDir ''SOLUTION_DATA_HASH'' = Some (SolutionDataHash soln) \<and>
   container_env m soln rc outputDir ''PROBLEM_DATA_URL'' = Some (ProblemDataUrl soln) \<and>
   container_env m soln rc outputDir ''PROBLEM_DATA_HASH'' = Some (ProblemDataHash soln) \<and>
   container_env m soln rc outputDir ''PROBLEM_LABEL'' = Some (Label (ProblemConfig soln)) \<and>
   container_env m soln rc outputDir ''JUDGE_ADAPTER'' =
     Some (Adapter (Judge (ProblemConfig soln))) \<and>
   container_env m soln rc outputDir ''OUTPUT_DIR'' = Some ''/output'' \<and>
   container_env m soln rc outputDir ''JUDGE_VARIABLES'' =
     (case rc_Variables rc of
        None \<Rightarrow> rc_Env rc ''JUDGE_VARIABLES''
      | Some vars \<Rightarrow>
          (case json_Marshal_Variables m vars of
             Inl err \<Rightarrow> rc_Env rc ''JUDGE_VARIABLES''
           | Inr varsJSON \<Rightarrow> Some varsJSON))"
  by (simp add: container_env_def buildExecuteConfig_def Let_def split: option.split sum.split)

text \<open>
  An instance: a configuration that declares \<open>SOLUTION_ID\<close> in its \<open>env\<close> map and no
  variables.
\<close>

theorem container_env_fixed_variables_witness:
  "rc_DockerCmd (sample_rc [''/judge.sh''] [''SOLUTION_ID'' \<mapsto> ''forged'']) \<noteq> [] \<and>
   rc_Env (sample_rc [''/judge.sh''] [''SOLUTION_ID'' \<mapsto> ''forged'']) ''SOLUTION_ID'' =
     Some ''forged'' \<and>
   container_env (sample_manager (Inl []) [] (Inl [])) sample_soln
     (sample_rc [''/judge.sh''] [''SOLUTION_ID'' \<mapsto> ''forged'']) ''/tmp/out''
     ''SOLUTION_ID'' = Some ''s1'' \<and>
   container_env (sample_manager (Inl []) [] (Inl [])) sample_soln
     (sample_rc [''/judge.sh''] [''SOLUTION_ID'' \<mapsto> ''forged'']) ''/tmp/out''
     ''JUDGE_VARIABLES'' = None"
proof -
  have h: "rc_DockerCmd (sample_rc [''/judge.sh''] [''SOLUTION_ID'' \<mapsto> ''forged'']) \<noteq> []"
    by (simp add: sample_rc_def)
  show ?thesis
    using h container_env_fixed_variables [OF h,
        where m = "sample_manager (Inl []) [] (Inl [])"
        and soln = sample_soln and outputDir = "''/tmp/out''"]
    by (simp add: sample_rc_def sample_soln_def)
qed

text \<open>
  A configuration without \<open>variables\<close> whose \<open>env\<close> map declares \<open>JUDGE_VARIABLES\<close>: the
  container sees the declared value.
\<close>

theorem container_env_shadow_counterexample:
  "rc_Env (sample_rc [''/judge.sh''] [''JUDGE_VARIABLES'' \<mapsto> ''shadow'']) ''JUDGE_VARIABLES'' =
     Some ''shadow'' \<and>
   container_env (sample_manager (Inl []) [] (Inl [])) sample_soln
     (sample_rc [''/judge.sh''] [''JUDGE_VARIABLES'' \<mapsto> ''shadow'']) ''/tmp/out''
     ''JUDGE_VARIABLES'' = Some ''shadow''"
  by (simp add: container_env_def buildExecuteConfig_def Let_def sample_rc_def)

subsection \<open>The Running patch\<close>

text \<open>
  Claim C10. For every task whose judge configuration parses, the first event of \<open>run\<close>
  is a Patch with status \<open>Running\<close> and the zero score; it precedes the dispatch of the
  container and every streamed line, so it is issued whatever the container writes.
  \<open>Running\<close> is not one of the documented statuses.
\<close>

theorem running_patch_first:
  assumes "json_Unmarshal_RunningConfig m (Config (Judge (ProblemConfig soln))) = Inr rc"
  shows
    "(\<exists>rest. fst (run F K m soln) = Queue (Patch (running_info F)) # rest) \<and>
     Status (running_info F) = ''Running'' \<and>
     Score (running_info F) = f64_of_int F 0 \<and>
     ''Running'' \<notin> set documented_statuses"
proof -
  have "\<exists>rest. fst (run F K m soln) = Queue (Patch (running_info F)) # rest"
    using assms by (simp add: run_def Let_def split: sum.split prod.split)
  moreover have "''Running'' \<notin> set documented_statuses"
    by (simp add: documented_statuses_def)
  ultimately show ?thesis by (simp add: running_info_def)
qed

text \<open>
  An instance: a container that writes nothing and exits with code 0.
\<close>

theorem running_patch_first_witness:
  "json_Unmarshal_RunningConfig
     (sample_manager (Inr (sample_rc [''/judge.sh''] Map.empty)) [] (Inr (sample_result False False 0)))
     (Config (Judge (ProblemConfig sample_soln))) = Inr (sample_rc [''/judge.sh''] Map.empty) \<and>
   hd (fst (run exact_float64 sample_aoiclient
     (sample_manager (Inr (sample_rc [''/judge.sh''] Map.empty)) [] (Inr (sample_result False False 0)))
     sample_soln)) = Queue (Patch (running_info exact_float64)) \<and>
   Status (running_info exact_float64) = ''Running''"
proof -
  let ?m = "sample_manager (Inr (sample_rc [''/judge.sh''] Map.empty)) []
      (Inr (sample_result False False 0))"
  have j: "json_Unmarshal_RunningConfig ?m (Config (Judge (ProblemConfig sample_soln))) =
      Inr (sample_rc [''/judge.sh''] Map.empty)"
    by (simp add: sample_manager_def)
  show ?thesis
    using j running_patch_first [OF j, where F = exact_float64 and K = sample_aoiclient]
    by auto
qed

end
